theory Spec2Isabelle
  imports Main "HOL-Library.Log_Nat"
begin

section \<open>Python numbers\<close>

text \<open>
  The bot is Python 3: its integers are unbounded (\<open>int\<close>) and its floats are IEEE 754
  binary64 values with round-to-nearest, ties-to-even. A finite float is modelled by the
  rational it denotes; every arithmetic result is rounded by \<open>round_double\<close>, which
  keeps 53 significant bits, switches to the fixed spacing \<open>2^-1074\<close> below \<open>2^-1022\<close>
  (subnormals) and overflows to an infinity from \<open>2^1024\<close> on. The sign of a zero is
  not modelled: the only operation that could tell the two zeros apart, division by zero,
  raises in Python for both.
\<close>

datatype pyfloat = Finite rat | PosInf | NegInf | NaN

text \<open>
  The exceptions of a run. The built-in ones carry no \<open>message\<close> attribute in Python 3.
  \<open>LibraryError\<close> stands for an exception class of a library (web3, requests) with its
  name and, when the class defines one, the value of its \<open>message\<close> attribute.
\<close>

datatype exn =
    ZeroDivisionError
  | OverflowError
  | ValueError
  | IndexError
  | AttributeError
  | LibraryError (exn_name: string) (message_attr: "string option")

definition pow2 :: "int \<Rightarrow> rat" where
  "pow2 k = (if 0 \<le> k then rat_of_int (2 ^ nat k) else 1 / rat_of_int (2 ^ nat (- k)))"

definition floor_log2 :: "rat \<Rightarrow> int" where
  "floor_log2 x = (case quotient_of x of (p, q) \<Rightarrow>
      let d = bitlen p - bitlen q in if pow2 d \<le> x then d else d - 1)"

definition round_half_even :: "rat \<Rightarrow> int" where
  "round_half_even x = (let f = \<lfloor>x\<rfloor>; d = x - rat_of_int f in
      if d < 1 / 2 then f else if 1 / 2 < d then f + 1 else if even f then f else f + 1)"

definition quantum :: "rat \<Rightarrow> rat" where
  "quantum x = pow2 (max (floor_log2 \<bar>x\<bar>) (- 1022) - 52)"

definition round_double :: "rat \<Rightarrow> pyfloat" where
  "round_double x = (if x = 0 then Finite 0 else
      let q = quantum x; y = rat_of_int (round_half_even (x / q)) * q in
      if rat_of_int (2 ^ 1024) \<le> y then PosInf
      else if y \<le> - rat_of_int (2 ^ 1024) then NegInf
      else Finite y)"

text \<open>\<open>x + y\<close>, \<open>x - y\<close> and \<open>x * y\<close> on floats never raise.\<close>

fun float_add :: "pyfloat \<Rightarrow> pyfloat \<Rightarrow> pyfloat" where
  "float_add NaN _ = NaN"
| "float_add _ NaN = NaN"
| "float_add PosInf NegInf = NaN"
| "float_add NegInf PosInf = NaN"
| "float_add PosInf _ = PosInf"
| "float_add _ PosInf = PosInf"
| "float_add NegInf _ = NegInf"
| "float_add _ NegInf = NegInf"
| "float_add (Finite a) (Finite b) = round_double (a + b)"

fun float_neg :: "pyfloat \<Rightarrow> pyfloat" where
  "float_neg NaN = NaN"
| "float_neg PosInf = NegInf"
| "float_neg NegInf = PosInf"
| "float_neg (Finite a) = Finite (- a)"

definition float_sub :: "pyfloat \<Rightarrow> pyfloat \<Rightarrow> pyfloat" where
  "float_sub x y = float_add x (float_neg y)"

text \<open>The sign of a float as \<open>-1\<close>, \<open>0\<close> or \<open>1\<close>; \<open>None\<close> for a NaN.\<close>

fun float_sgn :: "pyfloat \<Rightarrow> int option" where
  "float_sgn NaN = None"
| "float_sgn PosInf = Some 1"
| "float_sgn NegInf = Some (- 1)"
| "float_sgn (Finite a) = Some (if a < 0 then - 1 else if a = 0 then 0 else 1)"

definition signed_inf :: "int \<Rightarrow> pyfloat" where
  "signed_inf s = (if s < 0 then NegInf else if s = 0 then NaN else PosInf)"

fun float_mul :: "pyfloat \<Rightarrow> pyfloat \<Rightarrow> pyfloat" where
  "float_mul (Finite a) (Finite b) = round_double (a * b)"
| "float_mul x y = (case (float_sgn x, float_sgn y) of
      (Some s, Some t) \<Rightarrow> signed_inf (s * t)
    | _ \<Rightarrow> NaN)"

text \<open>
  \<open>x / y\<close> on floats raises \<open>ZeroDivisionError\<close> whenever the divisor is zero, whatever
  the dividend is; otherwise it is the IEEE quotient.
\<close>

fun float_truediv :: "pyfloat \<Rightarrow> pyfloat \<Rightarrow> exn + pyfloat" where
  "float_truediv x (Finite b) =
     (if b = 0 then Inl ZeroDivisionError
      else case x of
        Finite a \<Rightarrow> Inr (round_double (a / b))
      | NaN \<Rightarrow> Inr NaN
      | PosInf \<Rightarrow> Inr (if b < 0 then NegInf else PosInf)
      | NegInf \<Rightarrow> Inr (if b < 0 then PosInf else NegInf))"
| "float_truediv x NaN = Inr NaN"
| "float_truediv (Finite a) y = Inr (Finite 0)"
| "float_truediv x y = Inr NaN"

text \<open>\<open>x < y\<close> on floats: false as soon as one side is a NaN.\<close>

fun float_lt :: "pyfloat \<Rightarrow> pyfloat \<Rightarrow> bool" where
  "float_lt NaN _ = False"
| "float_lt _ NaN = False"
| "float_lt (Finite a) (Finite b) = (a < b)"
| "float_lt NegInf y = (y \<noteq> NegInf)"
| "float_lt x PosInf = (x \<noteq> PosInf)"
| "float_lt x y = False"

text \<open>
  \<open>int(x)\<close> truncates towards zero; it raises \<open>OverflowError\<close> on an infinity and
  \<open>ValueError\<close> on a NaN.
\<close>

fun int_of_float :: "pyfloat \<Rightarrow> exn + int" where
  "int_of_float (Finite a) = Inr (if 0 \<le> a then \<lfloor>a\<rfloor> else - \<lfloor>- a\<rfloor>)"
| "int_of_float NaN = Inl ValueError"
| "int_of_float x = Inl OverflowError"

text \<open>
  An integer operand of a float operation is converted first, correctly rounded, and the
  conversion raises \<open>OverflowError\<close> when the integer is too large for a float.
\<close>

definition float_of_int :: "int \<Rightarrow> exn + pyfloat" where
  "float_of_int n = (case round_double (rat_of_int n) of
      Finite y \<Rightarrow> Inr (Finite y)
    | _ \<Rightarrow> Inl OverflowError)"

text \<open>
  \<open>a / b\<close> on two integers is the correctly rounded quotient; it raises
  \<open>ZeroDivisionError\<close> for \<open>b = 0\<close> and \<open>OverflowError\<close> when the quotient is too large.
\<close>

definition int_truediv :: "int \<Rightarrow> int \<Rightarrow> exn + pyfloat" where
  "int_truediv a b =
     (if b = 0 then Inl ZeroDivisionError
      else case round_double (rat_of_int a / rat_of_int b) of
        Finite y \<Rightarrow> Inr (Finite y)
      | _ \<Rightarrow> Inl OverflowError)"

text \<open>A decimal literal of the source, such as \<open>1.01\<close>, is the float nearest to it.\<close>

definition float_literal :: "rat \<Rightarrow> pyfloat" where
  "float_literal x = round_double x"

section \<open>Data model\<close>

text \<open>
  The position classes of the source. A field that the run converts before use holds the
  converted value: \<open>fiatAmount\<close> is the float that \<open>float(...)\<close> reads from it and the
  total amounts are the integers that \<open>int(...)\<close> reads. Fields that the run only prints
  keep the text the API delivered.
\<close>

record StableRate =
  fiatAmount :: pyfloat
  originalBorrowedAmount :: string
  rate :: string
  totalBorrowedAmount :: int

record VariableRate =
  fiatAmount :: pyfloat
  originalBorrowedAmount :: string
  totalBorrowedAmount :: int

record BorrowedAsset =
  contract :: string
  liquidationPrice :: string
  stableRate :: StableRate
  variableRate :: VariableRate

record SuppliedAsset =
  contract :: string
  fiatAmount :: pyfloat
  isCollateral :: bool
  liquidationPrice :: string
  originalSuppliedAmount :: string
  totalSuppliedAmount :: int

record LiquidatablePosition =
  address :: string
  riskFactor :: string
  borrowedAssets :: "BorrowedAsset list"
  supliedAssets :: "SuppliedAsset list"

section \<open>The chain client and the trace of a run\<close>

text \<open>
  The arguments of \<open>liquidateUserWithFlashLoan\<close> (line 217), and that contract call
  together with the transaction fields the run supplies to \<open>build_transaction\<close>
  (lines 223 to 227).
\<close>

record flash_loan_call =
  debtAsset :: string
  debtToCover :: int
  collateralAsset :: string
  user :: string
  assets :: "string list"

record tx_request =
  contract_call :: flash_loan_call
  chainId :: int
  sender :: string
  nonce :: int

record SignedTransaction =
  rawTransaction :: string

record receipt =
  transactionHash :: string
  status :: int

datatype msg =
    FailedToGetPositions
  | ResponseBody string
  | NoLiquidationsDetected
  | PositionsOpenToLiquidation nat
  | NewLiquidationDetected
  | CollateralIs SuppliedAsset
  | CollateralLessThan1USD
  | DebtIs BorrowedAsset
  | CollateralFiatAmount pyfloat
  | DebtFiatAmount pyfloat
  | LiquidationProtocolFee pyfloat
  | LiquidationBonus pyfloat
  | LiquidationScaleFactor pyfloat
  | ScaledDebtLessThanCollateral
  | ScaledDebtMoreThanCollateral
  | OneDebtTokenInUSD pyfloat
  | OneCollateralTokenInUSD pyfloat
  | DebtToCoverInTokens pyfloat
  | DebtToCoverSentToContract int
  | LiquidatingUser string
  | CollateralAddress string
  | DebtAddress string
  | DebtToCover int
  | TXHash string
  | SuccesfullyLiquidatedUser string
  | FailedToLiquidateUser
  | ExceptionMessage string
  | FinishedLiquidationProcess

datatype call =
    LiquidationProtocolFeePercentage
  | GetReserveConfigurationData string
  | Decimals string
  | GetTransactionCount string
  | BuildTransaction tx_request
  | SendRawTransaction string
  | WaitForTransactionReceipt string

text \<open>
  A run is observed through its trace: every line it prints and every request it sends to
  the node, in order.
\<close>

datatype event = Print msg | Call call

text \<open>
  Everything the run takes from outside: the configuration, the pure helpers of the web3
  library, and the node. An answer of the node may depend on all that happened before, so
  each node function reads the trace up to its call; it answers with a value or with the
  exception that the call raises. Building the contract call of line 217 sends nothing to
  the node: \<open>liquidateUserWithFlashLoan\<close> gives the exception that the library raises
  when the arguments do not fit the contract's interface, if it raises one.
\<close>

record env =
  CHAIN_ID :: int
  LIQUIDATOR_WALLET_ADDRESS :: string
  LIQUIDATOR_WALLET_PRIVATE_KEY :: string
  to_checksum_address :: "string \<Rightarrow> exn + string"
  keccak :: "string \<Rightarrow> string"
  to_hex :: "string \<Rightarrow> string"
  hexbytes_hex :: "string \<Rightarrow> string"
  sign_transaction :: "string \<Rightarrow> string \<Rightarrow> exn + SignedTransaction"
  liquidateUserWithFlashLoan :: "flash_loan_call \<Rightarrow> exn option"
  liquidationProtocolFeePercentage :: "event list \<Rightarrow> exn + int"
  getReserveConfigurationData :: "string \<Rightarrow> event list \<Rightarrow> exn + int list"
  decimals :: "string \<Rightarrow> event list \<Rightarrow> exn + nat"
  get_transaction_count :: "string \<Rightarrow> event list \<Rightarrow> exn + int"
  build_transaction :: "tx_request \<Rightarrow> event list \<Rightarrow> exn + string"
  send_raw_transaction :: "string \<Rightarrow> event list \<Rightarrow> exn + string"
  wait_for_transaction_receipt :: "string \<Rightarrow> event list \<Rightarrow> exn + receipt"

text \<open>A request to the node: the answer is read from the trace so far, the call is logged.\<close>

definition node_call :: "(event list \<Rightarrow> exn + 'a) \<Rightarrow> call \<Rightarrow> event list \<Rightarrow> (exn + 'a) \<times> event list" where
  "node_call f c tr = (f tr, tr @ [Call c])"

text \<open>The values a call of \<open>liquidate\<close> could hand back to its caller.\<close>

datatype pyval = PyNone | PyStr string

section \<open>\<open>liquidate\<close>\<close>

text \<open>
  The function has no \<open>return\<close> statement: when no step raises, it returns \<open>None\<close>.
  The contract call is built from the checksummed arguments before the nonce is requested.
  The answer of \<open>send_raw_transaction\<close> is dropped and the receipt is awaited under the
  hash computed from the signed bytes.
\<close>

definition liquidate ::
  "env \<Rightarrow> string \<Rightarrow> string \<Rightarrow> string \<Rightarrow> string \<Rightarrow> string \<Rightarrow> int \<Rightarrow> event list
     \<Rightarrow> (exn + pyval) \<times> event list" where
  "liquidate E collateralAddress debtAddress pk caller walletToLiquidateAddress amount tr =
    (let tr1 = tr @ [Print (LiquidatingUser walletToLiquidateAddress),
                     Print (CollateralAddress collateralAddress),
                     Print (DebtAddress debtAddress),
                     Print (DebtToCover amount)] in
     (case to_checksum_address E debtAddress of Inl e \<Rightarrow> (Inl e, tr1) | Inr a1 \<Rightarrow>
     (case to_checksum_address E collateralAddress of Inl e \<Rightarrow> (Inl e, tr1) | Inr a2 \<Rightarrow>
     (case to_checksum_address E walletToLiquidateAddress of Inl e \<Rightarrow> (Inl e, tr1) | Inr a3 \<Rightarrow>
     (case to_checksum_address E collateralAddress of Inl e \<Rightarrow> (Inl e, tr1) | Inr a4 \<Rightarrow>
     (case to_checksum_address E debtAddress of Inl e \<Rightarrow> (Inl e, tr1) | Inr a5 \<Rightarrow>
     (let fn = \<lparr>debtAsset = a1, debtToCover = amount, collateralAsset = a2, user = a3,
                assets = [a4, a5]\<rparr> in
     (case liquidateUserWithFlashLoan E fn of Some e \<Rightarrow> (Inl e, tr1) | None \<Rightarrow>
     (case node_call (get_transaction_count E caller) (GetTransactionCount caller) tr1 of
        (Inl e, tr2) \<Rightarrow> (Inl e, tr2)
      | (Inr n, tr2) \<Rightarrow>
     (let req = \<lparr>contract_call = fn, chainId = CHAIN_ID E, sender = caller, nonce = n\<rparr> in
     (case node_call (build_transaction E req) (BuildTransaction req) tr2 of
        (Inl e, tr3) \<Rightarrow> (Inl e, tr3)
      | (Inr transaction, tr3) \<Rightarrow>
     (case sign_transaction E transaction pk of Inl e \<Rightarrow> (Inl e, tr3) | Inr signed_txn \<Rightarrow>
     (let tx_hash = to_hex E (keccak E (rawTransaction signed_txn)) in
     (case node_call (send_raw_transaction E (rawTransaction signed_txn))
                     (SendRawTransaction (rawTransaction signed_txn)) tr3 of
        (Inl e, tr4) \<Rightarrow> (Inl e, tr4)
      | (Inr _, tr4) \<Rightarrow>
     (case node_call (wait_for_transaction_receipt E tx_hash)
                     (WaitForTransactionReceipt tx_hash) tr4 of
        (Inl e, tr5) \<Rightarrow> (Inl e, tr5)
      | (Inr r, tr5) \<Rightarrow>
          (Inr PyNone, tr5 @ [Print (TXHash (hexbytes_hex E (transactionHash r)))]))))))))))))))))"

section \<open>Sizing a pair: lines 266 to 308 of \<open>trigger_logic\<close>\<close>

text \<open>\<open>t[i]\<close> on a tuple of the node's answer.\<close>

definition tuple_index :: "'a list \<Rightarrow> nat \<Rightarrow> exn + 'a" where
  "tuple_index xs i = (if i < length xs then Inr (xs ! i) else Inl IndexError)"

text \<open>
  Line 280: \<open>1 + liquidationBonus * (1 + liquidationProtocolFee / 100) / 100\<close>. The
  integer operands \<open>1\<close> and \<open>100\<close> are converted to floats exactly.
\<close>

definition liquidationScaleFactor :: "pyfloat \<Rightarrow> pyfloat \<Rightarrow> exn + pyfloat" where
  "liquidationScaleFactor liquidationBonus liquidationProtocolFee =
    (case float_truediv liquidationProtocolFee (Finite 100) of Inl e \<Rightarrow> Inl e | Inr q \<Rightarrow>
    (case float_truediv (float_mul liquidationBonus (float_add (Finite 1) q)) (Finite 100) of
       Inl e \<Rightarrow> Inl e
     | Inr r \<Rightarrow> Inr (float_add (Finite 1) r)))"

text \<open>
  Lines 274 to 281: the protocol fee and the bonus of the collateral are read from the
  node for every pair, and the scale factor is computed from them.
\<close>

definition fetch_scale_factor :: "env \<Rightarrow> string \<Rightarrow> event list \<Rightarrow> (exn + pyfloat) \<times> event list" where
  "fetch_scale_factor E collateralAddress tr =
    (case node_call (liquidationProtocolFeePercentage E) LiquidationProtocolFeePercentage tr of
       (Inl e, tr1) \<Rightarrow> (Inl e, tr1)
     | (Inr raw_fee, tr1) \<Rightarrow>
    (case int_truediv raw_fee 100 of Inl e \<Rightarrow> (Inl e, tr1) | Inr liquidationProtocolFee \<Rightarrow>
    (let tr2 = tr1 @ [Print (LiquidationProtocolFee liquidationProtocolFee)] in
    (case node_call (getReserveConfigurationData E collateralAddress)
                    (GetReserveConfigurationData collateralAddress) tr2 of
       (Inl e, tr3) \<Rightarrow> (Inl e, tr3)
     | (Inr cfg, tr3) \<Rightarrow>
    (case tuple_index cfg 3 of Inl e \<Rightarrow> (Inl e, tr3) | Inr raw_bonus \<Rightarrow>
    (case int_truediv raw_bonus 100 of Inl e \<Rightarrow> (Inl e, tr3) | Inr x \<Rightarrow>
    (let liquidationBonus = float_sub x (Finite 100);
         tr4 = tr3 @ [Print (LiquidationBonus liquidationBonus)] in
    (case liquidationScaleFactor liquidationBonus liquidationProtocolFee of
       Inl e \<Rightarrow> (Inl e, tr4)
     | Inr sf \<Rightarrow> (Inr sf, tr4 @ [Print (LiquidationScaleFactor sf)])))))))))"

text \<open>
  Lines 291 and 295: \<open>float(fiat) / float(int(amount) / pow(10, decimals))\<close>, the USD
  price of one token.
\<close>

definition one_token_in_USD :: "pyfloat \<Rightarrow> int \<Rightarrow> nat \<Rightarrow> exn + pyfloat" where
  "one_token_in_USD fiat amount dec =
    (case int_truediv amount (10 ^ dec) of Inl e \<Rightarrow> Inl e | Inr t \<Rightarrow> float_truediv fiat t)"

text \<open>Line 299: \<open>float(c.fiatAmount) / oneDebtInUSD / liquidationScaleFactor\<close>.\<close>

definition debtToCover_tokens :: "pyfloat \<Rightarrow> pyfloat \<Rightarrow> pyfloat \<Rightarrow> exn + pyfloat" where
  "debtToCover_tokens collateralFiat oneDebtInUSD sf =
    (case float_truediv collateralFiat oneDebtInUSD of Inl e \<Rightarrow> Inl e | Inr q \<Rightarrow>
       float_truediv q sf)"

text \<open>Lines 304 and 306: \<open>int(int(debtToCover * pow(10, dDecimals)) * margin)\<close>.\<close>

definition margin :: pyfloat where
  "margin = float_literal (101 / 100)"

definition debtToCover_base_units :: "pyfloat \<Rightarrow> nat \<Rightarrow> exn + int" where
  "debtToCover_base_units tokens dDecimals =
    (case float_of_int (10 ^ dDecimals) of Inl e \<Rightarrow> Inl e | Inr p \<Rightarrow>
    (case int_of_float (float_mul tokens p) of Inl e \<Rightarrow> Inl e | Inr units \<Rightarrow>
    (case float_of_int units of Inl e \<Rightarrow> Inl e | Inr u \<Rightarrow>
       int_of_float (float_mul u margin))))"

text \<open>Lines 288 to 308, the \<open>else\<close> branch: only part of the debt is repaid.\<close>

definition partial_repay ::
  "env \<Rightarrow> SuppliedAsset \<Rightarrow> BorrowedAsset \<Rightarrow> string \<Rightarrow> string \<Rightarrow> pyfloat \<Rightarrow> event list
     \<Rightarrow> (exn + int) \<times> event list" where
  "partial_repay E c b collateralAddress debtAddress sf tr =
    (let tr0 = tr @ [Print ScaledDebtMoreThanCollateral] in
    (case to_checksum_address E debtAddress of Inl e \<Rightarrow> (Inl e, tr0) | Inr da \<Rightarrow>
    (case node_call (decimals E da) (Decimals da) tr0 of
       (Inl e, tr1) \<Rightarrow> (Inl e, tr1)
     | (Inr dDecimals, tr1) \<Rightarrow>
    (case one_token_in_USD (VariableRate.fiatAmount (variableRate b))
            (VariableRate.totalBorrowedAmount (variableRate b)) dDecimals of
       Inl e \<Rightarrow> (Inl e, tr1)
     | Inr oneDebtInUSD \<Rightarrow>
    (let tr2 = tr1 @ [Print (OneDebtTokenInUSD oneDebtInUSD)] in
    (case to_checksum_address E collateralAddress of Inl e \<Rightarrow> (Inl e, tr2) | Inr ca \<Rightarrow>
    (case node_call (decimals E ca) (Decimals ca) tr2 of
       (Inl e, tr3) \<Rightarrow> (Inl e, tr3)
     | (Inr cDecimals, tr3) \<Rightarrow>
    (case one_token_in_USD (SuppliedAsset.fiatAmount c) (totalSuppliedAmount c) cDecimals of
       Inl e \<Rightarrow> (Inl e, tr3)
     | Inr oneCollateralInUSD \<Rightarrow>
    (let tr4 = tr3 @ [Print (OneCollateralTokenInUSD oneCollateralInUSD)] in
    (case debtToCover_tokens (SuppliedAsset.fiatAmount c) oneDebtInUSD sf of
       Inl e \<Rightarrow> (Inl e, tr4)
     | Inr tokens \<Rightarrow>
    (let tr5 = tr4 @ [Print (DebtToCoverInTokens tokens)] in
    (case debtToCover_base_units tokens dDecimals of
       Inl e \<Rightarrow> (Inl e, tr5)
     | Inr n \<Rightarrow> (Inr n, tr5 @ [Print (DebtToCoverSentToContract n)])))))))))))))"

text \<open>
  Lines 266 to 308: the two checksummed addresses and the amount that line 311 hands to
  \<open>liquidate\<close>. Nothing here is inside the \<open>try\<close> block of line 310.
\<close>

definition plan ::
  "env \<Rightarrow> SuppliedAsset \<Rightarrow> BorrowedAsset \<Rightarrow> event list
     \<Rightarrow> (exn + string \<times> string \<times> int) \<times> event list" where
  "plan E c b tr =
    (let tr0 = tr @ [Print (DebtIs b)] in
    (case to_checksum_address E (SuppliedAsset.contract c) of
       Inl e \<Rightarrow> (Inl e, tr0)
     | Inr collateralAddress \<Rightarrow>
    (case to_checksum_address E (BorrowedAsset.contract b) of
       Inl e \<Rightarrow> (Inl e, tr0)
     | Inr debtAddress \<Rightarrow>
    (let tr1 = tr0 @ [Print (CollateralFiatAmount (SuppliedAsset.fiatAmount c)),
                      Print (DebtFiatAmount (VariableRate.fiatAmount (variableRate b)))] in
    (case fetch_scale_factor E collateralAddress tr1 of
       (Inl e, tr2) \<Rightarrow> (Inl e, tr2)
     | (Inr sf, tr2) \<Rightarrow>
    (if float_lt (float_mul (VariableRate.fiatAmount (variableRate b)) sf)
                 (SuppliedAsset.fiatAmount c)
     then (Inr (collateralAddress, debtAddress,
                VariableRate.totalBorrowedAmount (variableRate b)),
           tr2 @ [Print ScaledDebtLessThanCollateral])
     else (case partial_repay E c b collateralAddress debtAddress sf tr2 of
             (Inl e, tr3) \<Rightarrow> (Inl e, tr3)
           | (Inr n, tr3) \<Rightarrow> (Inr (collateralAddress, debtAddress, n), tr3))))))))"

section \<open>The loops of \<open>trigger_logic\<close>\<close>

text \<open>
  \<open>e.message\<close> in the handler of line 323. Python 3 exceptions have no such attribute
  unless their class defines one; reading a missing attribute raises \<open>AttributeError\<close>.
\<close>

fun getattr_message :: "exn \<Rightarrow> exn + string" where
  "getattr_message (LibraryError n (Some m)) = Inr m"
| "getattr_message e = Inl AttributeError"

text \<open>
  Lines 264 to 325, the loop over the debts of one collateral. The result is the value
  of \<open>done\<close> when the loop ends, or the exception that leaves the loop.
\<close>

fun debt_loop ::
  "env \<Rightarrow> LiquidatablePosition \<Rightarrow> SuppliedAsset \<Rightarrow> BorrowedAsset list \<Rightarrow> event list
     \<Rightarrow> (exn + bool) \<times> event list" where
  "debt_loop E p c [] tr = (Inr False, tr)"
| "debt_loop E p c (b # bs) tr =
    (case plan E c b tr of
       (Inl e, tr1) \<Rightarrow> (Inl e, tr1)
     | (Inr (collateralAddress, debtAddress, amount), tr1) \<Rightarrow>
    (case liquidate E collateralAddress debtAddress (LIQUIDATOR_WALLET_PRIVATE_KEY E)
            (LIQUIDATOR_WALLET_ADDRESS E) (address p) amount tr1 of
       (Inr v, tr2) \<Rightarrow> (Inr True, tr2 @ [Print (SuccesfullyLiquidatedUser (address p))])
     | (Inl e, tr2) \<Rightarrow>
    (let tr3 = tr2 @ [Print FailedToLiquidateUser] in
    (case getattr_message e of
       Inl e' \<Rightarrow> (Inl e', tr3)
     | Inr m \<Rightarrow> debt_loop E p c bs (tr3 @ [Print (ExceptionMessage m)])))))"

text \<open>
  Lines 251 to 325, the loop over the collaterals of one position, entered with the
  current value of \<open>done\<close>. The result is the exception that leaves the loop, if any.
\<close>

fun collateral_loop ::
  "env \<Rightarrow> LiquidatablePosition \<Rightarrow> bool \<Rightarrow> SuppliedAsset list \<Rightarrow> event list
     \<Rightarrow> exn option \<times> event list" where
  "collateral_loop E p done [] tr = (None, tr)"
| "collateral_loop E p done (c # cs) tr =
    (let tr1 = tr @ [Print NewLiquidationDetected, Print (CollateralIs c)] in
     if float_lt (SuppliedAsset.fiatAmount c) (Finite 1)
     then collateral_loop E p done cs (tr1 @ [Print CollateralLessThan1USD])
     else if done then (None, tr1)
     else (case debt_loop E p c (borrowedAssets p) tr1 of
             (Inl e, tr2) \<Rightarrow> (Some e, tr2)
           | (Inr done', tr2) \<Rightarrow> collateral_loop E p done' cs tr2))"

text \<open>Lines 243 to 325, the loop over the positions.\<close>

fun position_loop :: "env \<Rightarrow> LiquidatablePosition list \<Rightarrow> event list \<Rightarrow> exn option \<times> event list" where
  "position_loop E [] tr = (None, tr)"
| "position_loop E (p # ps) tr =
    (let p' = p\<lparr>supliedAssets := filter (\<lambda>asset. isCollateral asset = True) (supliedAssets p)\<rparr> in
    (case collateral_loop E p' False (supliedAssets p') (tr @ [Print NewLiquidationDetected]) of
       (Some e, tr1) \<Rightarrow> (Some e, tr1)
     | (None, tr1) \<Rightarrow> position_loop E ps tr1))"

text \<open>
  How a run ends: \<open>trigger_logic\<close> returns, \<open>sys.exit()\<close> ends the process, or an
  exception leaves \<open>trigger_logic\<close> and ends the process.
\<close>

datatype outcome = Returned | SystemExit | Raised exn

text \<open>
  The answer of the positions API (lines 106 to 121): \<open>requests.get\<close> raises; or the
  status is 200, and reading the body and building the positions raises or gives the
  positions; or the status is another one, and \<open>response.json()\<close>, which line 119
  prints, raises or gives the body.
\<close>

datatype api_response =
    NoResponse exn
  | Status200 "exn + LiquidatablePosition list"
  | StatusOther "exn + string"

text \<open>
  \<open>getLiquidatablePositions\<close>: the positions, or the way the run ends before it has any.
\<close>

definition getLiquidatablePositions ::
  "api_response \<Rightarrow> event list \<Rightarrow> (outcome + LiquidatablePosition list) \<times> event list" where
  "getLiquidatablePositions response tr =
    (case response of
       NoResponse e \<Rightarrow> (Inl (Raised e), tr)
     | Status200 (Inl e) \<Rightarrow> (Inl (Raised e), tr)
     | Status200 (Inr liquidatablePositions) \<Rightarrow> (Inr liquidatablePositions, tr)
     | StatusOther (Inl e) \<Rightarrow> (Inl (Raised e), tr @ [Print FailedToGetPositions])
     | StatusOther (Inr body) \<Rightarrow>
         (Inl SystemExit, tr @ [Print FailedToGetPositions, Print (ResponseBody body)]))"

text \<open>\<open>trigger_logic\<close>, given the answer of the positions API.\<close>

definition trigger_logic ::
  "env \<Rightarrow> api_response \<Rightarrow> event list \<Rightarrow> outcome \<times> event list" where
  "trigger_logic E response tr =
    (case getLiquidatablePositions response tr of
       (Inl out, tr0) \<Rightarrow> (out, tr0)
     | (Inr liquidatablePositions, tr0) \<Rightarrow>
         if length liquidatablePositions = 0
         then (SystemExit, tr0 @ [Print NoLiquidationsDetected])
         else (case position_loop E liquidatablePositions
                      (tr0 @ [Print (PositionsOpenToLiquidation (length liquidatablePositions))]) of
                 (Some e, tr1) \<Rightarrow> (Raised e, tr1)
               | (None, tr1) \<Rightarrow> (Returned, tr1 @ [Print FinishedLiquidationProcess])))"

section \<open>Reading a trace\<close>

text \<open>
  The lines that the scan of a position's collaterals prints by itself (lines 252 to 258),
  before any node request, sizing or execution for a pair.
\<close>

fun scanning_msg :: "msg \<Rightarrow> bool" where
  "scanning_msg NewLiquidationDetected = True"
| "scanning_msg (CollateralIs c) = True"
| "scanning_msg CollateralLessThan1USD = True"
| "scanning_msg m = False"

fun scanning_event :: "event \<Rightarrow> bool" where
  "scanning_event (Print m) = scanning_msg m"
| "scanning_event (Call c) = False"

text \<open>Line 319, printed when \<open>liquidate\<close> has returned without raising.\<close>

fun success_event :: "event \<Rightarrow> bool" where
  "success_event (Print (SuccesfullyLiquidatedUser a)) = True"
| "success_event e = False"

text \<open>
  After the first success line of a list of events, nothing but lines of the scan follows:
  no node request and no line of sizing or executing a pair.
\<close>

fun quiet_after_success :: "event list \<Rightarrow> bool" where
  "quiet_after_success [] = True"
| "quiet_after_success (e # es) =
     (if success_event e then list_all scanning_event es else quiet_after_success es)"

text \<open>
  What sizing and executing one collateral/debt pair (lines 266 to 318) and the handler
  of a failed attempt (lines 324 and 325) may add to the trace.
\<close>

fun pair_msg :: "msg \<Rightarrow> bool" where
  "pair_msg (DebtIs b) = True"
| "pair_msg (CollateralFiatAmount x) = True"
| "pair_msg (DebtFiatAmount x) = True"
| "pair_msg (LiquidationProtocolFee x) = True"
| "pair_msg (LiquidationBonus x) = True"
| "pair_msg (LiquidationScaleFactor x) = True"
| "pair_msg ScaledDebtLessThanCollateral = True"
| "pair_msg ScaledDebtMoreThanCollateral = True"
| "pair_msg (OneDebtTokenInUSD x) = True"
| "pair_msg (OneCollateralTokenInUSD x) = True"
| "pair_msg (DebtToCoverInTokens x) = True"
| "pair_msg (DebtToCoverSentToContract n) = True"
| "pair_msg (LiquidatingUser a) = True"
| "pair_msg (CollateralAddress a) = True"
| "pair_msg (DebtAddress a) = True"
| "pair_msg (DebtToCover n) = True"
| "pair_msg (TXHash h) = True"
| "pair_msg FailedToLiquidateUser = True"
| "pair_msg (ExceptionMessage m) = True"
| "pair_msg m = False"

fun pair_event :: "event \<Rightarrow> bool" where
  "pair_event (Call c) = True"
| "pair_event (Print m) = pair_msg m"

section \<open>Example inputs\<close>

text \<open>
  A node that answers every request: the two raw percentages and the token decimals are
  parameters, the pure helpers are simple stand-ins.
\<close>

definition example_node :: "int \<Rightarrow> int \<Rightarrow> nat \<Rightarrow> env" where
  "example_node raw_fee raw_bonus dec =
    \<lparr>CHAIN_ID = 1, LIQUIDATOR_WALLET_ADDRESS = ''0xB07'', LIQUIDATOR_WALLET_PRIVATE_KEY = ''key'',
     to_checksum_address = (\<lambda>a. Inr a), keccak = (\<lambda>s. ''k'' @ s), to_hex = (\<lambda>s. ''0x'' @ s),
     hexbytes_hex = (\<lambda>s. ''0x'' @ s),
     sign_transaction = (\<lambda>t k. Inr \<lparr>rawTransaction = ''s'' @ t\<rparr>),
     liquidateUserWithFlashLoan = (\<lambda>fn. None),
     liquidationProtocolFeePercentage = (\<lambda>tr. Inr raw_fee),
     getReserveConfigurationData = (\<lambda>a tr. Inr [18, 8000, 8500, raw_bonus, 1000]),
     decimals = (\<lambda>a tr. Inr dec),
     get_transaction_count = (\<lambda>a tr. Inr 7),
     build_transaction = (\<lambda>r tr. Inr ''tx''),
     send_raw_transaction = (\<lambda>raw tr. Inr ''h''),
     wait_for_transaction_receipt = (\<lambda>h tr. Inr \<lparr>transactionHash = ''kstx'', status = 1\<rparr>)\<rparr>"

definition supplied :: "string \<Rightarrow> pyfloat \<Rightarrow> bool \<Rightarrow> int \<Rightarrow> SuppliedAsset" where
  "supplied a fiat coll amount =
    \<lparr>SuppliedAsset.contract = a, SuppliedAsset.fiatAmount = fiat, isCollateral = coll,
     SuppliedAsset.liquidationPrice = ''0'', originalSuppliedAmount = ''0'',
     totalSuppliedAmount = amount\<rparr>"

definition borrowed :: "string \<Rightarrow> pyfloat \<Rightarrow> int \<Rightarrow> BorrowedAsset" where
  "borrowed a fiat amount =
    \<lparr>BorrowedAsset.contract = a, BorrowedAsset.liquidationPrice = ''0'',
     stableRate = \<lparr>StableRate.fiatAmount = Finite 0, StableRate.originalBorrowedAmount = ''0'',
                   rate = ''0'', StableRate.totalBorrowedAmount = 0\<rparr>,
     variableRate = \<lparr>VariableRate.fiatAmount = fiat, VariableRate.originalBorrowedAmount = ''0'',
                     VariableRate.totalBorrowedAmount = amount\<rparr>\<rparr>"

definition position :: "SuppliedAsset list \<Rightarrow> BorrowedAsset list \<Rightarrow> LiquidatablePosition" where
  "position cs bs = \<lparr>address = ''0xU'', riskFactor = ''1'', borrowedAssets = bs, supliedAssets = cs\<rparr>"

text \<open>
  Three collaterals, the second one below one USD, and two debts whose scaled value is
  below the first collateral.
\<close>

definition three_collaterals :: "SuppliedAsset list" where
  "three_collaterals =
    [supplied ''0xC1'' (Finite 100) True (5 * 10 ^ 18),
     supplied ''0xC2'' (Finite (1 / 2)) True (10 ^ 18),
     supplied ''0xC3'' (Finite 50) True (10 ^ 18)]"

definition two_debts :: "BorrowedAsset list" where
  "two_debts =
    [borrowed ''0xD1'' (Finite 90) (90 * 10 ^ 18),
     borrowed ''0xD2'' (Finite 10) (10 ^ 19)]"


section \<open>What each part of a run adds to the trace\<close>

lemma fetch_emits:
  "fetch_scale_factor E a tr = (r, tr') \<Longrightarrow> \<exists>new. tr' = tr @ new \<and> list_all pair_event new"
  by (auto simp: fetch_scale_factor_def node_call_def Let_def split: sum.splits prod.splits)

lemma partial_emits:
  "partial_repay E c b ca da sf tr = (r, tr') \<Longrightarrow> \<exists>new. tr' = tr @ new \<and> list_all pair_event new"
  by (auto simp: partial_repay_def node_call_def Let_def split: sum.splits prod.splits)

lemma plan_emits:
  "plan E c b tr = (r, tr') \<Longrightarrow> \<exists>new. tr' = tr @ new \<and> list_all pair_event new"
  by (auto simp: plan_def Let_def split: sum.splits prod.splits if_splits
           dest!: fetch_emits partial_emits)

lemma liquidate_emits:
  "liquidate E ca da pk caller w n tr = (r, tr') \<Longrightarrow> \<exists>new. tr' = tr @ new \<and> list_all pair_event new"
  by (auto simp: liquidate_def node_call_def Let_def split: sum.splits prod.splits option.splits)

lemma debt_loop_emits:
  "debt_loop E p c bs tr = (r, tr') \<Longrightarrow>
     \<exists>new. tr' = tr @ new \<and>
       (if r = Inr True
        then \<exists>ys. new = ys @ [Print (SuccesfullyLiquidatedUser (address p))] \<and> list_all pair_event ys
        else list_all pair_event new)"
proof (induction bs arbitrary: tr)
  case Nil
  then show ?case by auto
next
  case (Cons b bs)
  show ?case
  proof (cases "plan E c b tr")
    case (Pair r1 tr1)
    from plan_emits [OF Pair] obtain n1 where n1: "tr1 = tr @ n1" "list_all pair_event n1" by blast
    show ?thesis
    proof (cases r1)
      case (Inl e)
      with Cons.prems Pair n1 show ?thesis by auto
    next
      case (Inr t)
      obtain ca da amount where t: "t = (ca, da, amount)" by (cases t)
      show ?thesis
      proof (cases "liquidate E ca da (LIQUIDATOR_WALLET_PRIVATE_KEY E) (LIQUIDATOR_WALLET_ADDRESS E) (address p) amount tr1")
        case (Pair r2 tr2)
        from liquidate_emits [OF Pair] obtain n2 where n2: "tr2 = tr1 @ n2" "list_all pair_event n2" by blast
        show ?thesis
        proof (cases r2)
          case (Inr v)
          with Cons.prems \<open>plan E c b tr = (r1, tr1)\<close> \<open>r1 = Inr t\<close> t Pair n1 n2 show ?thesis
            by auto
        next
          case (Inl e)
          show ?thesis
          proof (cases "getattr_message e")
            case (Inl e')
            with Cons.prems \<open>plan E c b tr = (r1, tr1)\<close> \<open>r1 = Inr t\<close> t Pair \<open>r2 = Inl e\<close> n1 n2 show ?thesis
              by auto
          next
            case (Inr m)
            with Cons.prems \<open>plan E c b tr = (r1, tr1)\<close> \<open>r1 = Inr t\<close> t Pair \<open>r2 = Inl e\<close>
            have rec: "debt_loop E p c bs (tr2 @ [Print FailedToLiquidateUser, Print (ExceptionMessage m)]) = (r, tr')"
              by auto
            from Cons.IH [OF rec] obtain n3 where n3:
              "tr' = (tr2 @ [Print FailedToLiquidateUser, Print (ExceptionMessage m)]) @ n3"
              "if r = Inr True
               then \<exists>ys. n3 = ys @ [Print (SuccesfullyLiquidatedUser (address p))] \<and> list_all pair_event ys
               else list_all pair_event n3" by blast
            show ?thesis
            proof (cases "r = Inr True")
              case True
              with n3 obtain ys where "n3 = ys @ [Print (SuccesfullyLiquidatedUser (address p))]" "list_all pair_event ys"
                by auto
              with n1 n2 n3 True show ?thesis
                by (intro exI [of _ "n1 @ n2 @ [Print FailedToLiquidateUser, Print (ExceptionMessage m)] @ ys @ [Print (SuccesfullyLiquidatedUser (address p))]"]) auto
            next
              case False
              with n1 n2 n3 show ?thesis
                by (intro exI [of _ "n1 @ n2 @ [Print FailedToLiquidateUser, Print (ExceptionMessage m)] @ n3"]) auto
            qed
          qed
        qed
      qed
    qed
  qed
qed


lemma pair_not_success: "pair_event e \<Longrightarrow> \<not> success_event e"
  by (cases e rule: success_event.cases) auto

lemma scanning_not_success: "scanning_event e \<Longrightarrow> \<not> success_event e"
  by (cases e rule: success_event.cases) auto

lemma quiet_append_no_success:
  "list_all (\<lambda>e. \<not> success_event e) xs \<Longrightarrow> quiet_after_success (xs @ ys) = quiet_after_success ys"
  by (induction xs) auto

lemma quiet_no_success:
  "list_all (\<lambda>e. \<not> success_event e) xs \<Longrightarrow> quiet_after_success xs"
  by (induction xs) auto

lemma list_all_pair_no_success:
  "list_all pair_event xs \<Longrightarrow> list_all (\<lambda>e. \<not> success_event e) xs"
  by (induction xs) (auto dest: pair_not_success)

lemma collateral_loop_done:
  "collateral_loop E p True cs tr = (r, tr') \<Longrightarrow>
     r = None \<and> (\<exists>new. tr' = tr @ new \<and> list_all scanning_event new)"
proof (induction cs arbitrary: tr)
  case Nil
  then show ?case by auto
next
  case (Cons c cs)
  show ?case
  proof (cases "float_lt (SuppliedAsset.fiatAmount c) (Finite 1)")
    case True
    with Cons.prems have
      "collateral_loop E p True cs
         (tr @ [Print NewLiquidationDetected, Print (CollateralIs c), Print CollateralLessThan1USD]) = (r, tr')"
      by (simp add: Let_def)
    from Cons.IH [OF this] show ?thesis by auto
  next
    case False
    with Cons.prems show ?thesis by (auto simp: Let_def)
  qed
qed

lemma collateral_loop_quiet:
  "collateral_loop E p False cs tr = (r, tr') \<Longrightarrow>
     \<exists>new. tr' = tr @ new \<and> quiet_after_success new"
proof (induction cs arbitrary: tr)
  case Nil
  then show ?case by auto
next
  case (Cons c cs)
  let ?tr1 = "tr @ [Print NewLiquidationDetected, Print (CollateralIs c)]"
  show ?case
  proof (cases "float_lt (SuppliedAsset.fiatAmount c) (Finite 1)")
    case True
    with Cons.prems have
      "collateral_loop E p False cs (?tr1 @ [Print CollateralLessThan1USD]) = (r, tr')"
      by (simp add: Let_def)
    from Cons.IH [OF this] obtain n where
      n: "tr' = (?tr1 @ [Print CollateralLessThan1USD]) @ n" "quiet_after_success n" by blast
    then show ?thesis
      by (intro exI [of _ "[Print NewLiquidationDetected, Print (CollateralIs c),
                            Print CollateralLessThan1USD] @ n"]) simp
  next
    case False
    obtain r1 tr2 where d: "debt_loop E p c (borrowedAssets p) ?tr1 = (r1, tr2)"
      by (cases "debt_loop E p c (borrowedAssets p) ?tr1")
    from debt_loop_emits [OF d] obtain n1 where n1: "tr2 = ?tr1 @ n1"
      "if r1 = Inr True
       then \<exists>ys. n1 = ys @ [Print (SuccesfullyLiquidatedUser (address p))] \<and> list_all pair_event ys
       else list_all pair_event n1" by blast
    show ?thesis
    proof (cases r1)
      case (Inl e)
      with n1 have "list_all pair_event n1" by simp
      then have "quiet_after_success n1"
        by (intro quiet_no_success list_all_pair_no_success)
      moreover from Cons.prems False d Inl have "tr' = tr2" by (simp add: Let_def)
      ultimately show ?thesis using n1(1)
        by (intro exI [of _ "[Print NewLiquidationDetected, Print (CollateralIs c)] @ n1"]) simp
    next
      case (Inr dn)
      with Cons.prems False d have rec: "collateral_loop E p dn cs tr2 = (r, tr')"
        by (simp add: Let_def)
      show ?thesis
      proof (cases dn)
        case True
        with n1 Inr obtain ys where ys:
          "n1 = ys @ [Print (SuccesfullyLiquidatedUser (address p))]" "list_all pair_event ys"
          by auto
        from rec True have "collateral_loop E p True cs tr2 = (r, tr')" by simp
        from collateral_loop_done [OF this] obtain n2 where
          n2: "tr' = tr2 @ n2" "list_all scanning_event n2" by blast
        have "quiet_after_success (ys @ Print (SuccesfullyLiquidatedUser (address p)) # n2)"
          using ys(2) n2(2)
          by (simp add: quiet_append_no_success list_all_pair_no_success)
        with n1(1) n2(1) ys(1) show ?thesis
          by (intro exI [of _ "[Print NewLiquidationDetected, Print (CollateralIs c)] @ ys
                               @ Print (SuccesfullyLiquidatedUser (address p)) # n2"]) simp
      next
        case False
        with rec have "collateral_loop E p False cs tr2 = (r, tr')" by simp
        from Cons.IH [OF this] obtain n2 where n2: "tr' = tr2 @ n2" "quiet_after_success n2" by blast
        from n1 Inr False have "list_all pair_event n1" by simp
        then have "quiet_after_success (n1 @ n2)"
          using n2(2) by (simp add: quiet_append_no_success list_all_pair_no_success)
        with n1(1) n2(1) show ?thesis
          by (intro exI [of _ "[Print NewLiquidationDetected, Print (CollateralIs c)] @ n1 @ n2"]) simp
      qed
    qed
  qed
qed

section \<open>Facts about the number model\<close>

lemma pow2_pos: "0 < pow2 k"
  by (simp add: pow2_def)

lemma quantum_pos: "0 < quantum x"
  by (simp add: quantum_def pow2_pos)

lemma pow2_powi: "pow2 k = 2 powi k"
  by (simp add: pow2_def power_int_def inverse_eq_divide power_one_over)

lemma pow2_add: "pow2 (a + b) = pow2 a * pow2 b"
  by (simp add: pow2_powi power_int_add)

lemma pow2_mono: "a \<le> b \<Longrightarrow> pow2 a \<le> pow2 b"
  by (simp add: pow2_powi power_int_increasing)

lemma pow2_nat: "pow2 (int n) = 2 ^ n"
  by (simp add: pow2_def)

text \<open>\<open>floor_log2\<close> is the binary exponent of a positive number.\<close>

lemma floor_log2_bounds:
  assumes "0 < x"
  shows "pow2 (floor_log2 x) \<le> x \<and> x < pow2 (floor_log2 x + 1)"
proof -
  obtain p q where pq: "quotient_of x = (p, q)" by (cases "quotient_of x")
  then have q: "0 < q" by (rule quotient_of_denom_pos)
  from pq have x: "x = rat_of_int p / rat_of_int q" by (rule quotient_of_div)
  with assms q have p: "0 < p" by (simp add: zero_less_divide_iff)
  let ?bp = "bitlen p" and ?bq = "bitlen q"
  from p have bp: "1 \<le> ?bp" by (auto simp: bitlen_alt_def)
  from q have bq: "1 \<le> ?bq" by (auto simp: bitlen_alt_def)
  from bitlen_bounds [OF p] have "p < 2 ^ nat ?bp" by simp
  then have "rat_of_int p < rat_of_int (2 ^ nat ?bp)" by (simp only: of_int_less_iff)
  then have p_up: "rat_of_int p < pow2 ?bp" using bp by (simp add: pow2_def)
  from bitlen_bounds [OF p] have "2 ^ nat (?bp - 1) \<le> p" by simp
  then have "rat_of_int (2 ^ nat (?bp - 1)) \<le> rat_of_int p" by (simp only: of_int_le_iff)
  then have p_lo: "pow2 (?bp - 1) \<le> rat_of_int p" using bp by (simp add: pow2_def)
  from bitlen_bounds [OF q] have "q < 2 ^ nat ?bq" by simp
  then have "rat_of_int q < rat_of_int (2 ^ nat ?bq)" by (simp only: of_int_less_iff)
  then have q_up: "rat_of_int q < pow2 ?bq" using bq by (simp add: pow2_def)
  from bitlen_bounds [OF q] have "2 ^ nat (?bq - 1) \<le> q" by simp
  then have "rat_of_int (2 ^ nat (?bq - 1)) \<le> rat_of_int q" by (simp only: of_int_le_iff)
  then have q_lo: "pow2 (?bq - 1) \<le> rat_of_int q" using bq by (simp add: pow2_def)
  let ?d = "?bp - ?bq"
  have qpos: "0 < rat_of_int q" using q by simp
  have lo: "pow2 (?d - 1) \<le> x"
  proof -
    have "pow2 (?d - 1) * rat_of_int q \<le> pow2 (?d - 1) * pow2 ?bq"
      using q_up pow2_pos [of "?d - 1"] by (simp add: mult_left_mono less_imp_le)
    also have "\<dots> = pow2 (?bp - 1)" by (simp add: pow2_add [symmetric])
    also have "\<dots> \<le> rat_of_int p" by (rule p_lo)
    finally show ?thesis using qpos by (simp add: x pos_le_divide_eq)
  qed
  have up: "x < pow2 (?d + 1)"
  proof -
    have "rat_of_int p < pow2 ?bp" by (rule p_up)
    also have "\<dots> = pow2 (?d + 1) * pow2 (?bq - 1)" by (simp add: pow2_add [symmetric])
    also have "\<dots> \<le> pow2 (?d + 1) * rat_of_int q"
      using q_lo pow2_pos [of "?d + 1"] by (simp add: mult_left_mono less_imp_le)
    finally show ?thesis using qpos by (simp add: x pos_divide_less_eq)
  qed
  show ?thesis
  proof (cases "pow2 ?d \<le> x")
    case True
    with up pq show ?thesis by (simp add: floor_log2_def Let_def)
  next
    case False
    with lo pq show ?thesis by (simp add: floor_log2_def Let_def)
  qed
qed

text \<open>Rounding to an integer moves a number by at most one half.\<close>

lemma round_half_even_near: "\<bar>rat_of_int (round_half_even z) - z\<bar> \<le> 1 / 2"
proof -
  let ?f = "\<lfloor>z\<rfloor>"
  have f: "rat_of_int ?f \<le> z" "z < rat_of_int ?f + 1"
    by linarith+
  consider "z - rat_of_int ?f < 1 / 2" | "1 / 2 < z - rat_of_int ?f" | "z - rat_of_int ?f = 1 / 2"
    by linarith
  then show ?thesis
  proof cases
    case 1
    then have r: "round_half_even z = ?f" by (simp add: round_half_even_def Let_def)
    from 1 f have "\<bar>rat_of_int ?f - z\<bar> \<le> 1 / 2" by linarith
    then show ?thesis by (simp only: r)
  next
    case 2
    then have r: "round_half_even z = ?f + 1" by (simp add: round_half_even_def Let_def)
    from 2 f have "\<bar>rat_of_int ?f + 1 - z\<bar> \<le> 1 / 2" by linarith
    then show ?thesis by (simp only: r of_int_add of_int_1)
  next
    case 3
    then have "round_half_even z = ?f \<or> round_half_even z = ?f + 1"
      by (simp add: round_half_even_def Let_def)
    moreover from 3 f have "\<bar>rat_of_int ?f - z\<bar> \<le> 1 / 2" by linarith
    moreover from 3 f have "\<bar>rat_of_int ?f + 1 - z\<bar> \<le> 1 / 2" by linarith
    ultimately show ?thesis by (auto simp only: of_int_add of_int_1)
  qed
qed

text \<open>
  A finite result of \<open>round_double\<close> is a multiple of the spacing of the floats around
  the argument, by an integer of at most 53 bits, and no other multiple is nearer.
\<close>

lemma round_double_nearest:
  assumes "round_double x = Finite y"
  shows "\<exists>m. y = rat_of_int m * quantum x \<and> \<bar>m\<bar> \<le> 2 ^ 53 \<and> \<bar>y - x\<bar> \<le> quantum x / 2"
proof (cases "x = 0")
  case True
  with assms have "y = 0" by (simp add: round_double_def)
  with True quantum_pos [of 0] show ?thesis
    by (intro exI [of _ 0]) (simp add: less_imp_le)
next
  case False
  let ?q = "quantum x"
  let ?m = "round_half_even (x / ?q)"
  from assms False have y: "y = rat_of_int ?m * ?q"
    by (auto simp: round_double_def Let_def split: if_splits)
  have q: "0 < ?q" by (rule quantum_pos)
  have near: "\<bar>rat_of_int ?m - x / ?q\<bar> \<le> 1 / 2" by (rule round_half_even_near)
  have "\<bar>y - x\<bar> = \<bar>rat_of_int ?m - x / ?q\<bar> * ?q"
  proof -
    have "y - x = (rat_of_int ?m - x / ?q) * ?q" using q by (simp add: y field_simps)
    then show ?thesis using q by (simp add: abs_mult)
  qed
  also have "\<dots> \<le> 1 / 2 * ?q" using near q by (simp add: mult_right_mono less_imp_le)
  finally have dist: "\<bar>y - x\<bar> \<le> ?q / 2" by simp
  from False have ax: "0 < \<bar>x\<bar>" by simp
  let ?e = "floor_log2 \<bar>x\<bar>"
  from floor_log2_bounds [OF ax] have up: "\<bar>x\<bar> < pow2 (?e + 1)" by simp
  have "pow2 (?e - 52) \<le> ?q" by (simp add: quantum_def pow2_mono)
  have "?e + 1 = 53 + (?e - 52)" by simp
  then have "pow2 (?e + 1) = pow2 53 * pow2 (?e - 52)" by (simp only: pow2_add)
  also have "pow2 53 = 2 ^ 53" by (simp add: pow2_def)
  finally have "pow2 (?e + 1) = 2 ^ 53 * pow2 (?e - 52)" .
  also have "\<dots> \<le> 2 ^ 53 * ?q" using \<open>pow2 (?e - 52) \<le> ?q\<close> by simp
  finally have "\<bar>x\<bar> < 2 ^ 53 * ?q" using up by simp
  then have "\<bar>x\<bar> / ?q < 2 ^ 53" using q by (simp add: pos_divide_less_eq)
  moreover have "\<bar>?q\<bar> = ?q" using q by simp
  ultimately have "\<bar>x / ?q\<bar> < 2 ^ 53" by (simp only: abs_divide)
  with near have "\<bar>rat_of_int ?m\<bar> < 2 ^ 53 + 1" by linarith
  then have "rat_of_int \<bar>?m\<bar> < rat_of_int (2 ^ 53 + 1)" by simp
  then have "\<bar>?m\<bar> < 2 ^ 53 + 1" by (simp only: of_int_less_iff)
  then have "\<bar>?m\<bar> \<le> 2 ^ 53" by simp
  with y dist show ?thesis by blast
qed

text \<open>
  The rounding on values whose floats are known: the literal \<open>0.1\<close>, ties that go to
  the even neighbour, the largest float and the first integer beyond all floats.
\<close>

lemma float_literal_tenth:
  "float_literal (1 / 10) = Finite (3602879701896397 / 36028797018963968)"
  by code_simp

lemma float_of_int_ties_to_even:
  "float_of_int (2 ^ 53 + 1) = Inr (Finite (2 ^ 53))"
  "float_of_int (2 ^ 53 + 3) = Inr (Finite (2 ^ 53 + 4))"
  by code_simp+

lemma float_of_int_overflow:
  "float_of_int (2 ^ 1024 - 2 ^ 970 - 1) = Inr (Finite (rat_of_int (2 ^ 1024 - 2 ^ 971)))"
  "float_of_int (2 ^ 1024 - 2 ^ 970) = Inl OverflowError"
  by code_simp+

lemma float_truediv_100: "float_truediv x (Finite 100) \<noteq> Inl e"
  by (cases x) auto

lemma int_truediv_zero: "int_truediv 0 (10 ^ d) = Inr (Finite 0)"
  by (simp add: int_truediv_def round_double_def)

lemma round_half_even_nonneg: "0 \<le> x \<Longrightarrow> 0 \<le> round_half_even x"
  by (auto simp: round_half_even_def Let_def)

lemma round_half_even_nonpos: "x \<le> 0 \<Longrightarrow> round_half_even x \<le> 0"
proof -
  assume x: "x \<le> 0"
  show ?thesis
  proof (cases "x = 0")
    case True
    then show ?thesis by (simp add: round_half_even_def Let_def)
  next
    case False
    with x have "x < 0" by simp
    then have "\<lfloor>x\<rfloor> < 0" by (simp add: floor_less_iff)
    then have "\<lfloor>x\<rfloor> + 1 \<le> 0" by linarith
    then show ?thesis by (auto simp: round_half_even_def Let_def)
  qed
qed

lemma round_double_nonneg:
  assumes "0 \<le> x"
  shows "round_double x = PosInf \<or> (\<exists>y. round_double x = Finite y \<and> 0 \<le> y)"
proof (cases "x = 0")
  case True
  then show ?thesis by (simp add: round_double_def)
next
  case False
  let ?q = "quantum x"
  let ?y = "rat_of_int (round_half_even (x / ?q)) * ?q"
  have "0 \<le> x / ?q" using assms quantum_pos [of x] by simp
  then have "0 \<le> round_half_even (x / ?q)" by (rule round_half_even_nonneg)
  then have y: "0 \<le> ?y" using quantum_pos [of x] by simp
  have "\<not> ?y \<le> - rat_of_int (2 ^ 1024)"
  proof
    assume "?y \<le> - rat_of_int (2 ^ 1024)"
    with y have "(0::rat) \<le> - rat_of_int (2 ^ 1024)" by (rule order_trans)
    then show False by simp
  qed
  with False y show ?thesis by (auto simp: round_double_def Let_def)
qed

lemma round_double_nonpos:
  assumes "x \<le> 0"
  shows "round_double x = NegInf \<or> (\<exists>y. round_double x = Finite y \<and> y \<le> 0)"
proof (cases "x = 0")
  case True
  then show ?thesis by (simp add: round_double_def)
next
  case False
  let ?q = "quantum x"
  let ?y = "rat_of_int (round_half_even (x / ?q)) * ?q"
  have "x / ?q \<le> 0" using assms quantum_pos [of x] by (simp add: divide_le_0_iff)
  then have "round_half_even (x / ?q) \<le> 0" by (rule round_half_even_nonpos)
  then have y: "?y \<le> 0" using quantum_pos [of x] by (simp add: mult_le_0_iff)
  have "\<not> rat_of_int (2 ^ 1024) \<le> ?y"
  proof
    assume "rat_of_int (2 ^ 1024) \<le> ?y"
    with y have "rat_of_int (2 ^ 1024) \<le> 0" by (rule order_trans[rotated])
    then show False by simp
  qed
  with False y show ?thesis by (auto simp: round_double_def Let_def)
qed

lemma round_double_Finite_nonneg: "0 \<le> x \<Longrightarrow> round_double x = Finite y \<Longrightarrow> 0 \<le> y"
  using round_double_nonneg [of x] by auto

lemma margin_Finite: "margin = Finite (4548635623644201 / 4503599627370496)"
  by code_simp

lemma margin_nonneg: "margin = Finite m \<Longrightarrow> 0 \<le> m"
  by (auto simp: margin_Finite)

lemma int_of_float_nonneg: "int_of_float (Finite y) = Inr n \<Longrightarrow> 0 \<le> y \<Longrightarrow> 0 \<le> n"
  by auto

lemma float_of_int_nonneg:
  assumes "float_of_int k = Inr u" and "0 \<le> k"
  shows "\<exists>y. u = Finite y \<and> 0 \<le> y"
proof -
  from assms(1) obtain y where y: "round_double (rat_of_int k) = Finite y" "u = Finite y"
    by (auto simp: float_of_int_def split: pyfloat.splits)
  from assms(2) have "0 \<le> rat_of_int k" by simp
  from round_double_Finite_nonneg [OF this y(1)] y(2) show ?thesis by simp
qed

lemma int_truediv_nonneg:
  assumes "int_truediv a b = Inr t" and "0 \<le> a" and "0 \<le> b"
  shows "\<exists>y. t = Finite y \<and> 0 \<le> y"
proof -
  from assms(1) obtain y where
    y: "round_double (rat_of_int a / rat_of_int b) = Finite y" "t = Finite y"
    by (auto simp: int_truediv_def split: pyfloat.splits if_splits)
  from assms(2,3) have "0 \<le> rat_of_int a / rat_of_int b" by simp
  from round_double_Finite_nonneg [OF this y(1)] y(2) show ?thesis by simp
qed

lemma float_mul_Finite:
  "float_mul x y = Finite w \<Longrightarrow> \<exists>a b. x = Finite a \<and> y = Finite b \<and> round_double (a * b) = Finite w"
  by (cases x; cases y) (auto simp: signed_inf_def split: if_splits)

lemma int_of_float_Inr: "int_of_float x = Inr n \<Longrightarrow> \<exists>w. x = Finite w"
  by (cases x) auto

section \<open>Facts about sizing a pair\<close>

lemma fetch_scale_factor_Inr:
  assumes "fetch_scale_factor E ca tr = (Inr sf, tr')"
  shows "\<exists>raw_fee fee cfg x bonus.
     liquidationProtocolFeePercentage E tr = Inr raw_fee \<and> int_truediv raw_fee 100 = Inr fee
   \<and> getReserveConfigurationData E ca
         (tr @ [Call LiquidationProtocolFeePercentage, Print (LiquidationProtocolFee fee)]) = Inr cfg
   \<and> 3 < length cfg \<and> int_truediv (cfg ! 3) 100 = Inr x \<and> bonus = float_sub x (Finite 100)
   \<and> liquidationScaleFactor bonus fee = Inr sf
   \<and> tr' = tr @ [Call LiquidationProtocolFeePercentage, Print (LiquidationProtocolFee fee),
                  Call (GetReserveConfigurationData ca), Print (LiquidationBonus bonus),
                  Print (LiquidationScaleFactor sf)]"
  using assms
  by (auto simp: fetch_scale_factor_def node_call_def tuple_index_def Let_def
           split: sum.splits prod.splits if_splits)

lemma partial_repay_Inr:
  assumes "partial_repay E c b ca da sf tr = (Inr n, tr')"
  shows "\<exists>da' dDecimals t oneDebtInUSD q tokens p units u.
      to_checksum_address E da = Inr da'
    \<and> decimals E da' (tr @ [Print ScaledDebtMoreThanCollateral]) = Inr dDecimals
    \<and> int_truediv (VariableRate.totalBorrowedAmount (variableRate b)) (10 ^ dDecimals) = Inr t
    \<and> float_truediv (VariableRate.fiatAmount (variableRate b)) t = Inr oneDebtInUSD
    \<and> float_truediv (SuppliedAsset.fiatAmount c) oneDebtInUSD = Inr q
    \<and> float_truediv q sf = Inr tokens
    \<and> float_of_int (10 ^ dDecimals) = Inr p
    \<and> int_of_float (float_mul tokens p) = Inr units
    \<and> float_of_int units = Inr u
    \<and> int_of_float (float_mul u (float_literal (101 / 100))) = Inr n"
  using assms
  by (auto simp: partial_repay_def node_call_def Let_def one_token_in_USD_def
        debtToCover_tokens_def debtToCover_base_units_def margin_def
      split: sum.splits prod.splits)

text \<open>Scaling to base units and adding the margin keeps a non-negative token amount non-negative.\<close>

lemma debtToCover_base_units_nonneg:
  assumes "debtToCover_base_units tokens d = Inr n"
    and "\<And>tk. tokens = Finite tk \<Longrightarrow> 0 \<le> tk"
  shows "0 \<le> n"
proof -
  from assms(1) obtain p units u where
    p: "float_of_int (10 ^ d) = Inr p"
    and units: "int_of_float (float_mul tokens p) = Inr units"
    and u: "float_of_int units = Inr u"
    and n: "int_of_float (float_mul u margin) = Inr n"
    by (auto simp: debtToCover_base_units_def split: sum.splits)
  from float_of_int_nonneg [OF p] obtain pp where pp: "p = Finite pp" "0 \<le> pp" by auto
  from int_of_float_Inr [OF units] obtain w where w: "float_mul tokens p = Finite w" by blast
  from float_mul_Finite [OF w] pp obtain tk where
    tk: "tokens = Finite tk" "round_double (tk * pp) = Finite w" by auto
  from assms(2) tk(1) have "0 \<le> tk" by simp
  with pp have "0 \<le> tk * pp" by simp
  from round_double_Finite_nonneg [OF this tk(2)] have "0 \<le> w" .
  with units w have "0 \<le> units" by auto
  from float_of_int_nonneg [OF u this] obtain y where y: "u = Finite y" "0 \<le> y" by auto
  from int_of_float_Inr [OF n] obtain z where z: "float_mul u margin = Finite z" by blast
  from float_mul_Finite [OF z] y obtain m where
    m: "margin = Finite m" "round_double (y * m) = Finite z" by auto
  from m(1) have "0 \<le> m" by (rule margin_nonneg)
  with y have "0 \<le> y * m" by simp
  from round_double_Finite_nonneg [OF this m(2)] have "0 \<le> z" .
  with n z show ?thesis by auto
qed

lemma scale_factor_not_negative:
  assumes "\<not> float_lt (float_mul (Finite f) (Finite s)) (Finite a)"
    and "0 \<le> f" and "1 \<le> a"
  shows "0 \<le> s"
proof (rule ccontr)
  assume "\<not> 0 \<le> s"
  with assms(2) have "f * s \<le> 0" by (simp add: mult_le_0_iff)
  from round_double_nonpos [OF this] assms(1,3) show False by auto
qed

lemma round_double_Finite_nonpos: "x \<le> 0 \<Longrightarrow> round_double x = Finite y \<Longrightarrow> y \<le> 0"
  using round_double_nonpos [of x] by auto

lemma scale_factor_not_positive:
  assumes "\<not> float_lt (float_mul (Finite f) (Finite s)) (Finite a)"
    and "f \<le> 0" and "1 \<le> a"
  shows "s \<le> 0"
proof (rule ccontr)
  assume "\<not> s \<le> 0"
  with assms(2) have "f * s \<le> 0" by (simp add: mult_le_0_iff)
  from round_double_nonpos [OF this] assms(1,3) show False by auto
qed

lemma tokens_not_negative:
  assumes H1: "\<not> float_lt (float_mul fd sf) fc"
    and H2: "\<not> float_lt fc (Finite 1)"
    and H4: "0 \<le> amount"
    and t: "int_truediv amount (10 ^ d) = Inr t"
    and one: "float_truediv fd t = Inr one"
    and q: "float_truediv fc one = Inr q"
    and tok: "float_truediv q sf = Inr (Finite tk)"
  shows "0 \<le> tk"
proof -
  from int_truediv_nonneg [OF t H4] obtain tt where tt: "t = Finite tt" "0 \<le> tt" by auto
  with one have "tt \<noteq> 0" by auto
  with tt have ttpos: "0 < tt" by simp
  show ?thesis
  proof (cases sf)
    case NaN
    with tok show ?thesis by simp
  next
    case PosInf
    with tok show ?thesis by (cases q) auto
  next
    case NegInf
    with tok show ?thesis by (cases q) auto
  next
    case (Finite s)
    with tok have s0: "s \<noteq> 0" by auto
    from tok Finite s0 obtain qq where qq: "q = Finite qq" "round_double (qq / s) = Finite tk"
      by (cases q) (auto split: if_splits)
    show ?thesis
    proof (cases one)
      case NaN
      with q qq show ?thesis by simp
    next
      case PosInf
      with q qq have "qq = 0" by (cases fc) auto
      with qq show ?thesis by (simp add: round_double_def)
    next
      case NegInf
      with q qq have "qq = 0" by (cases fc) auto
      with qq show ?thesis by (simp add: round_double_def)
    next
      case (Finite od)
      note one_fin = Finite
      with q have o0: "od \<noteq> 0" by auto
      from q qq one_fin o0 H2 obtain a where a: "fc = Finite a" "1 \<le> a"
        "round_double (a / od) = Finite qq"
        by (cases fc) (auto split: if_splits)
      from one one_fin tt ttpos obtain f where f: "fd = Finite f"
        "round_double (f / tt) = Finite od"
        by (cases fd) (auto split: if_splits)
      from H1 f(1) a(1) \<open>sf = Finite s\<close>
      have lt: "\<not> float_lt (float_mul (Finite f) (Finite s)) (Finite a)" by simp
      show ?thesis
      proof (cases "0 \<le> f")
        case True
        with ttpos have "0 \<le> f / tt" by simp
        from round_double_Finite_nonneg [OF this f(2)] o0 have "0 < od" by simp
        with a(2) have "0 \<le> a / od" by simp
        from round_double_Finite_nonneg [OF this a(3)] have qq0: "0 \<le> qq" .
        from scale_factor_not_negative [OF lt True a(2)] have "0 \<le> s" .
        with qq0 have "0 \<le> qq / s" by simp
        from round_double_Finite_nonneg [OF this qq(2)] show ?thesis .
      next
        case False
        then have fneg: "f \<le> 0" by simp
        with ttpos have "f / tt \<le> 0" by (simp add: divide_le_0_iff)
        from round_double_Finite_nonpos [OF this f(2)] o0 have "od < 0" by simp
        with a(2) have "a / od \<le> 0" by (simp add: divide_le_0_iff)
        from round_double_Finite_nonpos [OF this a(3)] have qq0: "qq \<le> 0" .
        from scale_factor_not_positive [OF lt fneg a(2)] have "s \<le> 0" .
        with qq0 have "0 \<le> qq / s" by (simp add: zero_le_divide_iff)
        from round_double_Finite_nonneg [OF this qq(2)] show ?thesis .
      qed
    qed
  qed
qed

text \<open>The successful path of the partial-repay branch, with both truncations written out.\<close>

lemma float_of_int_Inr:
  assumes "float_of_int k = Inr u"
  shows "\<exists>y. u = Finite y \<and> round_double (rat_of_int k) = Finite y"
proof (cases "round_double (rat_of_int k)")
  case (Finite y)
  with assms have "u = Finite y" by (simp add: float_of_int_def)
  with Finite show ?thesis by blast
qed (use assms in \<open>simp_all add: float_of_int_def\<close>)

lemma partial_repay_truncations:
  assumes "partial_repay E c b ca da sf tr = (Inr n, tr')"
  shows "\<exists>a dDecimals t oneDebtInUSD q tokens p w y m z.
      to_checksum_address E da = Inr a
    \<and> decimals E a (tr @ [Print ScaledDebtMoreThanCollateral]) = Inr dDecimals
    \<and> int_truediv (VariableRate.totalBorrowedAmount (variableRate b)) (10 ^ dDecimals) = Inr t
    \<and> float_truediv (VariableRate.fiatAmount (variableRate b)) t = Inr oneDebtInUSD
    \<and> float_truediv (SuppliedAsset.fiatAmount c) oneDebtInUSD = Inr q
    \<and> float_truediv q sf = Inr (Finite tokens)
    \<and> round_double (10 ^ dDecimals) = Finite p
    \<and> round_double (tokens * p) = Finite w
    \<and> round_double (rat_of_int (if 0 \<le> w then \<lfloor>w\<rfloor> else - \<lfloor>- w\<rfloor>)) = Finite y
    \<and> round_double (101 / 100) = Finite m
    \<and> round_double (y * m) = Finite z
    \<and> n = (if 0 \<le> z then \<lfloor>z\<rfloor> else - \<lfloor>- z\<rfloor>)"
proof -
  from partial_repay_Inr [OF assms] obtain a dDecimals t oneDebtInUSD q tokens p units u where
    a: "to_checksum_address E da = Inr a"
    and d: "decimals E a (tr @ [Print ScaledDebtMoreThanCollateral]) = Inr dDecimals"
    and t: "int_truediv (VariableRate.totalBorrowedAmount (variableRate b)) (10 ^ dDecimals) = Inr t"
    and one: "float_truediv (VariableRate.fiatAmount (variableRate b)) t = Inr oneDebtInUSD"
    and q: "float_truediv (SuppliedAsset.fiatAmount c) oneDebtInUSD = Inr q"
    and tok: "float_truediv q sf = Inr tokens"
    and p: "float_of_int (10 ^ dDecimals) = Inr p"
    and units: "int_of_float (float_mul tokens p) = Inr units"
    and u: "float_of_int units = Inr u"
    and n: "int_of_float (float_mul u (float_literal (101 / 100))) = Inr n"
    by blast
  from float_of_int_Inr [OF p] obtain pp where
    pp0: "p = Finite pp" "round_double (rat_of_int (10 ^ dDecimals)) = Finite pp"
    by blast
  from pp0(2) have "round_double (10 ^ dDecimals) = Finite pp" by simp
  with pp0(1) have pp: "p = Finite pp" "round_double (10 ^ dDecimals) = Finite pp"
    by simp_all
  from int_of_float_Inr [OF units] obtain w where w: "float_mul tokens p = Finite w" by blast
  from float_mul_Finite [OF w] pp obtain tk where
    tk: "tokens = Finite tk" "round_double (tk * pp) = Finite w" by auto
  from units w have un: "units = (if 0 \<le> w then \<lfloor>w\<rfloor> else - \<lfloor>- w\<rfloor>)" by simp
  from float_of_int_Inr [OF u] obtain y where
    y: "u = Finite y" "round_double (rat_of_int units) = Finite y"
    by blast
  from int_of_float_Inr [OF n] obtain z where z: "float_mul u (float_literal (101 / 100)) = Finite z"
    by blast
  from float_mul_Finite [OF z] y obtain m where
    m: "float_literal (101 / 100) = Finite m" "round_double (y * m) = Finite z" by auto
  from n z have nn: "n = (if 0 \<le> z then \<lfloor>z\<rfloor> else - \<lfloor>- z\<rfloor>)" by simp
  from m(1) have m': "round_double (101 / 100) = Finite m" by (simp add: float_literal_def)
  from y(2) un have y': "round_double (rat_of_int (if 0 \<le> w then \<lfloor>w\<rfloor> else - \<lfloor>- w\<rfloor>)) = Finite y"
    by simp
  from tok tk(1) have tok': "float_truediv q sf = Inr (Finite tk)" by simp
  from a d t one q tok' pp(2) tk(2) y' m' m(2) nn show ?thesis by blast
qed

section \<open>Which collaterals a run looks at\<close>

lemma pair_event_not_CollateralIs: "list_all pair_event xs \<Longrightarrow> Print (CollateralIs a) \<notin> set xs"
  by (induction xs) auto

lemma debt_loop_no_CollateralIs:
  assumes "debt_loop E p c bs tr = (r, tr')"
  shows "\<exists>new. tr' = tr @ new \<and> (\<forall>a. Print (CollateralIs a) \<notin> set new)"
proof -
  from debt_loop_emits [OF assms] obtain new where n: "tr' = tr @ new"
    "if r = Inr True
     then \<exists>ys. new = ys @ [Print (SuccesfullyLiquidatedUser (address p))] \<and> list_all pair_event ys
     else list_all pair_event new" by blast
  have "\<forall>a. Print (CollateralIs a) \<notin> set new"
  proof (cases "r = Inr True")
    case True
    with n obtain ys where "new = ys @ [Print (SuccesfullyLiquidatedUser (address p))]"
      "list_all pair_event ys" by auto
    then show ?thesis by (auto dest: pair_event_not_CollateralIs)
  next
    case False
    with n show ?thesis by (auto dest: pair_event_not_CollateralIs)
  qed
  with n(1) show ?thesis by blast
qed

lemma collateral_loop_CollateralIs:
  "collateral_loop E p dn0 cs tr = (r, tr') \<Longrightarrow>
     \<exists>new. tr' = tr @ new \<and> (\<forall>a. Print (CollateralIs a) \<in> set new \<longrightarrow> a \<in> set cs)"
proof (induction cs arbitrary: tr dn0)
  case Nil
  then show ?case by auto
next
  case (Cons c cs)
  let ?tr1 = "tr @ [Print NewLiquidationDetected, Print (CollateralIs c)]"
  show ?case
  proof (cases "float_lt (SuppliedAsset.fiatAmount c) (Finite 1)")
    case True
    with Cons.prems have
      "collateral_loop E p dn0 cs (?tr1 @ [Print CollateralLessThan1USD]) = (r, tr')"
      by (simp add: Let_def)
    from Cons.IH [OF this] obtain n where
      n: "tr' = (?tr1 @ [Print CollateralLessThan1USD]) @ n"
         "\<forall>a. Print (CollateralIs a) \<in> set n \<longrightarrow> a \<in> set cs" by blast
    then show ?thesis
      by (intro exI [of _ "[Print NewLiquidationDetected, Print (CollateralIs c),
                            Print CollateralLessThan1USD] @ n"]) auto
  next
    case False
    note notdust = False
    show ?thesis
    proof (cases dn0)
      case True
      with Cons.prems notdust show ?thesis by (auto simp: Let_def)
    next
      case False
      obtain r1 tr2 where d: "debt_loop E p c (borrowedAssets p) ?tr1 = (r1, tr2)"
        by (cases "debt_loop E p c (borrowedAssets p) ?tr1")
      from debt_loop_no_CollateralIs [OF d] obtain n1 where
        n1: "tr2 = ?tr1 @ n1" "\<forall>a. Print (CollateralIs a) \<notin> set n1" by blast
      show ?thesis
      proof (cases r1)
        case (Inl e)
        with Cons.prems notdust False d have "tr' = tr2" by (simp add: Let_def)
        with n1 show ?thesis
          by (intro exI [of _ "[Print NewLiquidationDetected, Print (CollateralIs c)] @ n1"]) auto
      next
        case (Inr dn)
        with Cons.prems notdust False d have "collateral_loop E p dn cs tr2 = (r, tr')"
          by (simp add: Let_def)
        from Cons.IH [OF this] obtain n2 where
          n2: "tr' = tr2 @ n2" "\<forall>a. Print (CollateralIs a) \<in> set n2 \<longrightarrow> a \<in> set cs" by blast
        with n1 show ?thesis
          by (intro exI [of _ "[Print NewLiquidationDetected, Print (CollateralIs c)] @ n1 @ n2"]) auto
      qed
    qed
  qed
qed

lemma position_loop_CollateralIs:
  "position_loop E ps tr = (r, tr') \<Longrightarrow>
     \<exists>new. tr' = tr @ new \<and>
       (\<forall>a. Print (CollateralIs a) \<in> set new \<longrightarrow>
          isCollateral a \<and> (\<exists>p \<in> set ps. a \<in> set (supliedAssets p)))"
proof (induction ps arbitrary: tr)
  case Nil
  then show ?case by auto
next
  case (Cons p ps)
  let ?cs = "filter (\<lambda>asset. isCollateral asset = True) (supliedAssets p)"
  let ?p = "p\<lparr>supliedAssets := ?cs\<rparr>"
  obtain r1 tr1 where c: "collateral_loop E ?p False ?cs (tr @ [Print NewLiquidationDetected]) = (r1, tr1)"
    by (cases "collateral_loop E ?p False ?cs (tr @ [Print NewLiquidationDetected])")
  from collateral_loop_CollateralIs [OF c] obtain n1 where
    n1: "tr1 = (tr @ [Print NewLiquidationDetected]) @ n1"
        "\<forall>a. Print (CollateralIs a) \<in> set n1 \<longrightarrow> a \<in> set ?cs" by blast
  show ?case
  proof (cases r1)
    case (Some e)
    with Cons.prems c have "tr' = tr1" by (simp add: Let_def)
    with n1 show ?thesis
      by (intro exI [of _ "Print NewLiquidationDetected # n1"]) auto
  next
    case None
    with Cons.prems c have "position_loop E ps tr1 = (r, tr')" by (simp add: Let_def)
    from Cons.IH [OF this] obtain n2 where
      n2: "tr' = tr1 @ n2"
          "\<forall>a. Print (CollateralIs a) \<in> set n2 \<longrightarrow>
             isCollateral a \<and> (\<exists>p \<in> set ps. a \<in> set (supliedAssets p))" by blast
    with n1 show ?thesis
      by (intro exI [of _ "Print NewLiquidationDetected # n1 @ n2"]) auto
  qed
qed

section \<open>A failed attempt\<close>

text \<open>
  What lines 323 to 325 do with the exception of a failed attempt: with a \<open>message\<close>
  attribute the two lines are printed and the loop goes on with the next debt; without
  one the second \<open>print\<close> raises and the loop is left.
\<close>

lemma failed_attempt:
  assumes "plan E c b tr = (Inr (ca, da, n), tr1)"
    and "liquidate E ca da (LIQUIDATOR_WALLET_PRIVATE_KEY E) (LIQUIDATOR_WALLET_ADDRESS E)
           (address p) n tr1 = (Inl e, tr2)"
  shows "debt_loop E p c (b # bs) tr =
     (case getattr_message e of
        Inr m \<Rightarrow> debt_loop E p c bs
                   (tr2 @ [Print FailedToLiquidateUser, Print (ExceptionMessage m)])
      | Inl e' \<Rightarrow> (Inl e', tr2 @ [Print FailedToLiquidateUser]))"
  using assms by (simp add: Let_def split: sum.splits)

text \<open>
  Claim C1. A pair whose execution attempt fails shall be logged and skipped, and the run
  shall go on with the next debt. The handler of line 323 prints its first line and then
  reads \<open>e.message\<close>. Here the node rejects the raw transaction of the first pair with a
  \<open>ValueError\<close>, which has no such attribute: the handler itself raises
  \<open>AttributeError\<close>, the run ends with it and the second debt is never looked at.
\<close>

theorem C1_handler_raises:
  "fst (trigger_logic
          ((example_node 1000 10500 18)\<lparr>send_raw_transaction := \<lambda>raw t. Inl ValueError\<rparr>)
          (Status200 (Inr [position [supplied ''0xC1'' (Finite 100) True (5 * 10 ^ 18)] two_debts])) [])
     = Raised AttributeError
   \<and> Print (DebtIs (borrowed ''0xD2'' (Finite 10) (10 ^ 19)))
       \<notin> set (snd (trigger_logic
          ((example_node 1000 10500 18)\<lparr>send_raw_transaction := \<lambda>raw t. Inl ValueError\<rparr>)
          (Status200 (Inr [position [supplied ''0xC1'' (Finite 100) True (5 * 10 ^ 18)] two_debts])) []))
   \<and> last (snd (trigger_logic
          ((example_node 1000 10500 18)\<lparr>send_raw_transaction := \<lambda>raw t. Inl ValueError\<rparr>)
          (Status200 (Inr [position [supplied ''0xC1'' (Finite 100) True (5 * 10 ^ 18)] two_debts])) []))
     = Print FailedToLiquidateUser"
  by code_simp

section \<open>Zero outstanding debt\<close>

text \<open>
  Claim C2, as the code has it. When the variable debt of a pair is zero and the
  partial-repay branch is reached, the price of one debt token (line 291) divides by zero
  as soon as the decimals of the debt token are read. The division is outside the
  \<open>try\<close> block: \<open>ZeroDivisionError\<close> leaves the loop over the debts whatever debts
  remain, and an exception that leaves the loop over the debts leaves the loop over the
  collaterals, the loop over the positions and \<open>trigger_logic\<close>.
\<close>

theorem C2_zero_debt_aborts:
  assumes "VariableRate.totalBorrowedAmount (variableRate b) = 0"
    and "to_checksum_address E (SuppliedAsset.contract c) = Inr ca"
    and "to_checksum_address E (BorrowedAsset.contract b) = Inr da"
    and "fetch_scale_factor E ca
           (tr @ [Print (DebtIs b), Print (CollateralFiatAmount (SuppliedAsset.fiatAmount c)),
                  Print (DebtFiatAmount (VariableRate.fiatAmount (variableRate b)))]) = (Inr sf, tr2)"
    and "\<not> float_lt (float_mul (VariableRate.fiatAmount (variableRate b)) sf)
             (SuppliedAsset.fiatAmount c)"
    and "to_checksum_address E da = Inr a"
    and "decimals E a (tr2 @ [Print ScaledDebtMoreThanCollateral]) = Inr dDecimals"
  shows "debt_loop E p c (b # bs) tr =
           (Inl ZeroDivisionError, tr2 @ [Print ScaledDebtMoreThanCollateral, Call (Decimals a)])
     \<and> (debt_loop E p c (borrowedAssets p)
           (tr0 @ [Print NewLiquidationDetected, Print (CollateralIs c)]) = (Inl e, t)
         \<and> \<not> float_lt (SuppliedAsset.fiatAmount c) (Finite 1)
         \<longrightarrow> collateral_loop E p False (c # cs) tr0 = (Some e, t))
     \<and> (collateral_loop E
           (q\<lparr>supliedAssets := filter (\<lambda>asset. isCollateral asset = True) (supliedAssets q)\<rparr>) False
           (filter (\<lambda>asset. isCollateral asset = True) (supliedAssets q))
           (tr1 @ [Print NewLiquidationDetected]) = (Some e, t)
         \<longrightarrow> position_loop E (q # qs) tr1 = (Some e, t))
     \<and> (position_loop E ps (tr3 @ [Print (PositionsOpenToLiquidation (length ps))]) = (Some e, t)
         \<and> ps \<noteq> []
         \<longrightarrow> trigger_logic E (Status200 (Inr ps)) tr3 = (Raised e, t))"
proof (intro conjI)
  have "plan E c b tr =
          (Inl ZeroDivisionError, tr2 @ [Print ScaledDebtMoreThanCollateral, Call (Decimals a)])"
    using assms
    by (simp add: plan_def partial_repay_def node_call_def one_token_in_USD_def
                  int_truediv_zero Let_def)
  then show "debt_loop E p c (b # bs) tr =
           (Inl ZeroDivisionError, tr2 @ [Print ScaledDebtMoreThanCollateral, Call (Decimals a)])"
    by simp
next
  show "debt_loop E p c (borrowedAssets p)
           (tr0 @ [Print NewLiquidationDetected, Print (CollateralIs c)]) = (Inl e, t)
         \<and> \<not> float_lt (SuppliedAsset.fiatAmount c) (Finite 1)
         \<longrightarrow> collateral_loop E p False (c # cs) tr0 = (Some e, t)"
    by (simp add: Let_def)
next
  show "collateral_loop E
           (q\<lparr>supliedAssets := filter (\<lambda>asset. isCollateral asset = True) (supliedAssets q)\<rparr>) False
           (filter (\<lambda>asset. isCollateral asset = True) (supliedAssets q))
           (tr1 @ [Print NewLiquidationDetected]) = (Some e, t)
         \<longrightarrow> position_loop E (q # qs) tr1 = (Some e, t)"
    by (simp add: Let_def)
next
  show "position_loop E ps (tr3 @ [Print (PositionsOpenToLiquidation (length ps))]) = (Some e, t)
         \<and> ps \<noteq> []
         \<longrightarrow> trigger_logic E (Status200 (Inr ps)) tr3 = (Raised e, t)"
    by (simp add: trigger_logic_def getLiquidatablePositions_def)
qed

text \<open>
  The theorem at a collateral of 100 USD and a first debt of 200 USD with a total borrowed
  amount of zero.
\<close>

theorem C2_witness:
  "debt_loop (example_node 1000 10500 18)
     (position [supplied ''0xC1'' (Finite 100) True (5 * 10 ^ 18)]
        [borrowed ''0xD1'' (Finite 200) 0, borrowed ''0xD2'' (Finite 10) (10 ^ 19)])
     (supplied ''0xC1'' (Finite 100) True (5 * 10 ^ 18))
     [borrowed ''0xD1'' (Finite 200) 0, borrowed ''0xD2'' (Finite 10) (10 ^ 19)] [] =
   (Inl ZeroDivisionError,
    [Print (DebtIs (borrowed ''0xD1'' (Finite 200) 0)),
     Print (CollateralFiatAmount (Finite 100)), Print (DebtFiatAmount (Finite 200)),
     Call LiquidationProtocolFeePercentage, Print (LiquidationProtocolFee (Finite 10)),
     Call (GetReserveConfigurationData ''0xC1''), Print (LiquidationBonus (Finite 5)),
     Print (LiquidationScaleFactor (float_literal (1055 / 1000))),
     Print ScaledDebtMoreThanCollateral, Call (Decimals ''0xD1'')])"
proof -
  let ?E = "example_node 1000 10500 18"
  let ?c = "supplied ''0xC1'' (Finite 100) True (5 * 10 ^ 18)"
  let ?b = "borrowed ''0xD1'' (Finite 200) 0"
  let ?tr2 = "[Print (DebtIs ?b),
     Print (CollateralFiatAmount (Finite 100)), Print (DebtFiatAmount (Finite 200)),
     Call LiquidationProtocolFeePercentage, Print (LiquidationProtocolFee (Finite 10)),
     Call (GetReserveConfigurationData ''0xC1''), Print (LiquidationBonus (Finite 5)),
     Print (LiquidationScaleFactor (float_literal (1055 / 1000)))]"
  have h1: "VariableRate.totalBorrowedAmount (variableRate ?b) = 0"
    by (simp add: borrowed_def)
  have h2: "to_checksum_address ?E (SuppliedAsset.contract ?c) = Inr ''0xC1''"
    by (simp add: example_node_def supplied_def)
  have h3: "to_checksum_address ?E (BorrowedAsset.contract ?b) = Inr ''0xD1''"
    by (simp add: example_node_def borrowed_def)
  have h4: "fetch_scale_factor ?E ''0xC1''
           ([] @ [Print (DebtIs ?b), Print (CollateralFiatAmount (SuppliedAsset.fiatAmount ?c)),
                  Print (DebtFiatAmount (VariableRate.fiatAmount (variableRate ?b)))])
            = (Inr (float_literal (1055 / 1000)), ?tr2)"
    by code_simp
  have h5: "\<not> float_lt (float_mul (VariableRate.fiatAmount (variableRate ?b))
                 (float_literal (1055 / 1000))) (SuppliedAsset.fiatAmount ?c)"
    by code_simp
  have h6: "to_checksum_address ?E ''0xD1'' = Inr ''0xD1''"
    by (simp add: example_node_def)
  have h7: "decimals ?E ''0xD1'' (?tr2 @ [Print ScaledDebtMoreThanCollateral]) = Inr 18"
    by (simp add: example_node_def)
  from C2_zero_debt_aborts [OF h1 h2 h3 h4 h5 h6 h7] show ?thesis
    by simp
qed


text \<open>
  Claim C2 as stated fails: in the same run the zero debt is not skipped. The run ends
  with \<open>ZeroDivisionError\<close> and never reaches the second debt.
\<close>

theorem C2_counterexample:
  "fst (trigger_logic (example_node 1000 10500 18)
          (Status200 (Inr [position [supplied ''0xC1'' (Finite 100) True (5 * 10 ^ 18)]
                   [borrowed ''0xD1'' (Finite 200) 0, borrowed ''0xD2'' (Finite 10) (10 ^ 19)]])) [])
     = Raised ZeroDivisionError
   \<and> Print (DebtIs (borrowed ''0xD2'' (Finite 10) (10 ^ 19)))
       \<notin> set (snd (trigger_logic (example_node 1000 10500 18)
          (Status200 (Inr [position [supplied ''0xC1'' (Finite 100) True (5 * 10 ^ 18)]
                   [borrowed ''0xD1'' (Finite 200) 0, borrowed ''0xD2'' (Finite 10) (10 ^ 19)]])) []))"
  by code_simp

section \<open>The partial-repay amount\<close>

text \<open>
  Claim C3. For a pair that takes the partial-repay branch, the amount handed to
  \<open>liquidate\<close> is \<open>int(int((collateralFiat / oneDebtUSD / scaleFactor) * 10^d) * 1.01)\<close>
  in float arithmetic, where \<open>d\<close> is the number of decimals the node reports for the debt
  token and \<open>oneDebtUSD = debtFiat / (totalBorrowedAmount / 10^d)\<close>. The token amount
  \<open>tokens\<close> is scaled to base units (\<open>w\<close>), truncated towards zero to an integer, that
  integer is multiplied as a float (\<open>y\<close>) by the float of the margin 1.01 (\<open>m\<close>), and
  the product \<open>z\<close> is truncated towards zero again: for a value that is not negative the
  truncation is the floor.
\<close>

theorem C3_partial_repay_amount:
  assumes "to_checksum_address E (SuppliedAsset.contract c) = Inr ca"
    and "to_checksum_address E (BorrowedAsset.contract b) = Inr da"
    and "fetch_scale_factor E ca
           (tr @ [Print (DebtIs b), Print (CollateralFiatAmount (SuppliedAsset.fiatAmount c)),
                  Print (DebtFiatAmount (VariableRate.fiatAmount (variableRate b)))]) = (Inr sf, tr2)"
    and "\<not> float_lt (float_mul (VariableRate.fiatAmount (variableRate b)) sf)
             (SuppliedAsset.fiatAmount c)"
    and "fst (plan E c b tr) = Inr (ca', da', n)"
  shows "\<exists>a dDecimals t oneDebtInUSD q tokens p w y m z.
      to_checksum_address E da = Inr a
    \<and> decimals E a (tr2 @ [Print ScaledDebtMoreThanCollateral]) = Inr dDecimals
    \<and> int_truediv (VariableRate.totalBorrowedAmount (variableRate b)) (10 ^ dDecimals) = Inr t
    \<and> float_truediv (VariableRate.fiatAmount (variableRate b)) t = Inr oneDebtInUSD
    \<and> float_truediv (SuppliedAsset.fiatAmount c) oneDebtInUSD = Inr q
    \<and> float_truediv q sf = Inr (Finite tokens)
    \<and> round_double (10 ^ dDecimals) = Finite p
    \<and> round_double (tokens * p) = Finite w
    \<and> round_double (rat_of_int (if 0 \<le> w then \<lfloor>w\<rfloor> else - \<lfloor>- w\<rfloor>)) = Finite y
    \<and> round_double (101 / 100) = Finite m
    \<and> round_double (y * m) = Finite z
    \<and> n = (if 0 \<le> z then \<lfloor>z\<rfloor> else - \<lfloor>- z\<rfloor>)"
proof -
  obtain r tr3 where pr: "partial_repay E c b ca da sf tr2 = (r, tr3)"
    by (cases "partial_repay E c b ca da sf tr2")
  with assms have "r = Inr n"
    by (auto simp: plan_def Let_def split: sum.splits)
  with pr have "partial_repay E c b ca da sf tr2 = (Inr n, tr3)" by simp
  then show ?thesis by (rule partial_repay_truncations)
qed

text \<open>
  A debt token of six decimals: collateral 100 USD, debt 200 USD for 150 tokens, bonus 5
  and fee 10 (scale factor 1.055). The token amount 71.09004739... scales to
  71090047.39..., which the first truncation cuts to 71090047; with the margin it becomes
  71800947.47, which the second truncation cuts to the amount 71800947. Both truncations
  drop a fraction.
\<close>

theorem C3_witness:
  "fst (plan (example_node 1000 10500 6) (supplied ''0xC1'' (Finite 100) True (5 * 10 ^ 18))
        (borrowed ''0xD1'' (Finite 200) (150 * 10 ^ 6)) []) =
     Inr (''0xC1'', ''0xD1'', 71800947)
   \<and> float_truediv (Finite 75) (float_literal (1055 / 1000))
       = Inr (Finite (2501258679300853 / 35184372088832))
   \<and> round_double (2501258679300853 / 35184372088832 * 10 ^ 6)
       = Finite (4770772322274881 / 67108864)
   \<and> rat_of_int 71090047 < 4770772322274881 / 67108864
   \<and> round_double (71090047 * (4548635623644201 / 4503599627370496))
       = Finite (2409240009417687 / 33554432)
   \<and> rat_of_int 71800947 < 2409240009417687 / 33554432
   \<and> (71800947 :: int) = \<lfloor>2409240009417687 / 33554432 :: rat\<rfloor>"
proof -
  let ?E = "example_node 1000 10500 6"
  let ?c = "supplied ''0xC1'' (Finite 100) True (5 * 10 ^ 18)"
  let ?b = "borrowed ''0xD1'' (Finite 200) (150 * 10 ^ 6)"
  let ?sf = "float_literal (1055 / 1000)"
  let ?tr2 = "[Print (DebtIs ?b),
       Print (CollateralFiatAmount (Finite 100)), Print (DebtFiatAmount (Finite 200)),
       Call LiquidationProtocolFeePercentage, Print (LiquidationProtocolFee (Finite 10)),
       Call (GetReserveConfigurationData ''0xC1''), Print (LiquidationBonus (Finite 5)),
       Print (LiquidationScaleFactor ?sf)]"
  have h1: "to_checksum_address ?E (SuppliedAsset.contract ?c) = Inr ''0xC1''"
    by (simp add: example_node_def supplied_def)
  have h2: "to_checksum_address ?E (BorrowedAsset.contract ?b) = Inr ''0xD1''"
    by (simp add: example_node_def borrowed_def)
  have h3: "fetch_scale_factor ?E ''0xC1''
           ([] @ [Print (DebtIs ?b), Print (CollateralFiatAmount (SuppliedAsset.fiatAmount ?c)),
                  Print (DebtFiatAmount (VariableRate.fiatAmount (variableRate ?b)))])
            = (Inr ?sf, ?tr2)"
    by code_simp
  have h4: "\<not> float_lt (float_mul (VariableRate.fiatAmount (variableRate ?b)) ?sf)
               (SuppliedAsset.fiatAmount ?c)"
    by code_simp
  have h5: "fst (plan ?E ?c ?b []) = Inr (''0xC1'', ''0xD1'', 71800947)"
    by code_simp
  from C3_partial_repay_amount [OF h1 h2 h3 h4 h5]
  obtain a dDecimals t oneDebtInUSD q tokens p w y m z where
    a: "to_checksum_address ?E ''0xD1'' = Inr a"
    and d: "decimals ?E a (?tr2 @ [Print ScaledDebtMoreThanCollateral]) = Inr dDecimals"
    and t: "int_truediv (VariableRate.totalBorrowedAmount (variableRate ?b)) (10 ^ dDecimals) = Inr t"
    and one: "float_truediv (VariableRate.fiatAmount (variableRate ?b)) t = Inr oneDebtInUSD"
    and q: "float_truediv (SuppliedAsset.fiatAmount ?c) oneDebtInUSD = Inr q"
    and tok: "float_truediv q ?sf = Inr (Finite tokens)"
    and p: "round_double (10 ^ dDecimals) = Finite p"
    and w: "round_double (tokens * p) = Finite w"
    and y: "round_double (rat_of_int (if 0 \<le> w then \<lfloor>w\<rfloor> else - \<lfloor>- w\<rfloor>)) = Finite y"
    and m: "round_double (101 / 100) = Finite m"
    and z: "round_double (y * m) = Finite z"
    and n: "(71800947 :: int) = (if 0 \<le> z then \<lfloor>z\<rfloor> else - \<lfloor>- z\<rfloor>)"
    by blast
  from d have dd: "dDecimals = 6" by (simp add: example_node_def)
  have e3: "int_truediv (VariableRate.totalBorrowedAmount (variableRate ?b)) (10 ^ 6) = Inr (Finite 150)"
    by code_simp
  with t dd have tt: "t = Finite 150" by simp
  have e4: "float_truediv (VariableRate.fiatAmount (variableRate ?b)) (Finite 150)
              = Inr (Finite (6004799503160661 / 4503599627370496))"
    by code_simp
  with one tt have oo: "oneDebtInUSD = Finite (6004799503160661 / 4503599627370496)" by simp
  have e5: "float_truediv (SuppliedAsset.fiatAmount ?c) (Finite (6004799503160661 / 4503599627370496))
              = Inr (Finite 75)"
    by code_simp
  with q oo have qq: "q = Finite 75" by simp
  have e6: "float_truediv (Finite 75) ?sf = Inr (Finite (2501258679300853 / 35184372088832))"
    by code_simp
  with tok qq have tk: "tokens = 2501258679300853 / 35184372088832" by simp
  have e7: "round_double (10 ^ 6) = Finite (10 ^ 6)"
    by code_simp
  with p dd have pp: "p = 10 ^ 6" by simp
  have e8: "round_double (2501258679300853 / 35184372088832 * 10 ^ 6)
              = Finite (4770772322274881 / 67108864)"
    by code_simp
  with w tk pp have ww: "w = 4770772322274881 / 67108864" by simp
  have fl: "(if (0::rat) \<le> 4770772322274881 / 67108864 then \<lfloor>4770772322274881 / 67108864 :: rat\<rfloor>
             else - \<lfloor>- (4770772322274881 / 67108864 :: rat)\<rfloor>) = 71090047"
    by code_simp
  have e9: "round_double (rat_of_int 71090047) = Finite 71090047"
    by code_simp
  with y ww fl have yy: "y = 71090047" by simp
  have e10: "round_double (101 / 100) = Finite (4548635623644201 / 4503599627370496)"
    by code_simp
  with m have mm: "m = 4548635623644201 / 4503599627370496" by simp
  have e11: "round_double (71090047 * (4548635623644201 / 4503599627370496))
              = Finite (2409240009417687 / 33554432)"
    by code_simp
  with z yy mm have zz: "z = 2409240009417687 / 33554432" by simp
  from n zz have nn: "(71800947 :: int) = \<lfloor>2409240009417687 / 33554432 :: rat\<rfloor>"
    by simp
  have lt1: "rat_of_int 71090047 < 4770772322274881 / 67108864" by simp
  have lt2: "rat_of_int 71800947 < 2409240009417687 / 33554432" by simp
  from h5 e6 e8 lt1 e11 lt2 nn show ?thesis by blast
qed

section \<open>At most one liquidation per position\<close>

text \<open>
  Claim C4. Within the scan of one position (the collateral loop entered with
  \<open>done = False\<close>), once the success line of line 319 is printed, every later event is a
  line of the scan itself: no node request is sent and no pair is sized or executed any
  more, whatever collaterals and debts remain. The success line is printed as soon as
  \<open>liquidate\<close> returns for a pair, and the loop over the debts then ends with
  \<open>done = True\<close> without looking at the remaining debts.
\<close>

theorem C4_at_most_one_success_per_position:
  "(\<exists>new. snd (collateral_loop E p False cs tr) = tr @ new \<and> quiet_after_success new)
   \<and> (plan E c b tr = (Inr (ca, da, n), tr1)
        \<and> liquidate E ca da (LIQUIDATOR_WALLET_PRIVATE_KEY E) (LIQUIDATOR_WALLET_ADDRESS E)
             (address p) n tr1 = (Inr v, tr2)
      \<longrightarrow> debt_loop E p c (b # bs) tr =
            (Inr True, tr2 @ [Print (SuccesfullyLiquidatedUser (address p))]))"
proof
  obtain r tr' where "collateral_loop E p False cs tr = (r, tr')"
    by (cases "collateral_loop E p False cs tr")
  from collateral_loop_quiet [OF this] this
  show "\<exists>new. snd (collateral_loop E p False cs tr) = tr @ new \<and> quiet_after_success new"
    by auto
next
  show "plan E c b tr = (Inr (ca, da, n), tr1)
        \<and> liquidate E ca da (LIQUIDATOR_WALLET_PRIVATE_KEY E) (LIQUIDATOR_WALLET_ADDRESS E)
             (address p) n tr1 = (Inr v, tr2)
      \<longrightarrow> debt_loop E p c (b # bs) tr =
            (Inr True, tr2 @ [Print (SuccesfullyLiquidatedUser (address p))])"
    by simp
qed

text \<open>
  The first pair of the example position is liquidated; afterwards the run only prints the
  two remaining collaterals and the dust line of the second.
\<close>

theorem C4_witness:
  "drop 20 (snd (collateral_loop (example_node 1000 10500 18)
                   (position three_collaterals two_debts) False three_collaterals [])) =
     [Print (SuccesfullyLiquidatedUser ''0xU''),
      Print NewLiquidationDetected,
      Print (CollateralIs (supplied ''0xC2'' (Finite (1 / 2)) True (10 ^ 18))),
      Print CollateralLessThan1USD,
      Print NewLiquidationDetected,
      Print (CollateralIs (supplied ''0xC3'' (Finite 50) True (10 ^ 18)))]
   \<and> quiet_after_success (snd (collateral_loop (example_node 1000 10500 18)
                   (position three_collaterals two_debts) False three_collaterals []))"
proof
  show "drop 20 (snd (collateral_loop (example_node 1000 10500 18)
                   (position three_collaterals two_debts) False three_collaterals [])) =
     [Print (SuccesfullyLiquidatedUser ''0xU''),
      Print NewLiquidationDetected,
      Print (CollateralIs (supplied ''0xC2'' (Finite (1 / 2)) True (10 ^ 18))),
      Print CollateralLessThan1USD,
      Print NewLiquidationDetected,
      Print (CollateralIs (supplied ''0xC3'' (Finite 50) True (10 ^ 18)))]"
    by code_simp
next
  from C4_at_most_one_success_per_position
         [of "example_node 1000 10500 18" "position three_collaterals two_debts"
             three_collaterals "[]"]
  show "quiet_after_success (snd (collateral_loop (example_node 1000 10500 18)
                   (position three_collaterals two_debts) False three_collaterals []))"
    by auto
qed

section \<open>The sign of the amount\<close>

text \<open>
  Claim C5, as the code has it. No branch checks the amount. For a pair past the dust guard
  whose \<open>totalBorrowedAmount\<close> is not negative, the amount handed to \<open>liquidate\<close> is
  never negative; in the full-repay branch it is \<open>totalBorrowedAmount\<close> itself, so it is
  positive exactly when that is, and in the partial-repay branch the truncation may leave
  zero.
\<close>

theorem C5_amount_not_negative:
  assumes "plan E c b tr = (Inr (ca, da, n), tr')"
    and "\<not> float_lt (SuppliedAsset.fiatAmount c) (Finite 1)"
    and "0 \<le> VariableRate.totalBorrowedAmount (variableRate b)"
  shows "0 \<le> n
       \<and> (last tr' = Print ScaledDebtLessThanCollateral
             \<and> n = VariableRate.totalBorrowedAmount (variableRate b)
          \<or> last tr' = Print (DebtToCoverSentToContract n))"
proof -
  let ?fd = "VariableRate.fiatAmount (variableRate b)"
  let ?fc = "SuppliedAsset.fiatAmount c"
  let ?tr1 = "tr @ [Print (DebtIs b), Print (CollateralFiatAmount ?fc), Print (DebtFiatAmount ?fd)]"
  from assms(1) obtain x y sf tr2 where
    x: "to_checksum_address E (SuppliedAsset.contract c) = Inr x"
    and y: "to_checksum_address E (BorrowedAsset.contract b) = Inr y"
    and sf: "fetch_scale_factor E x ?tr1 = (Inr sf, tr2)"
    by (auto simp: plan_def Let_def split: sum.splits prod.splits)
  show ?thesis
  proof (cases "float_lt (float_mul ?fd sf) ?fc")
    case True
    with assms x y sf show ?thesis by (auto simp: plan_def Let_def)
  next
    case False
    with assms(1) x y sf obtain tr3 where pr: "partial_repay E c b x y sf tr2 = (Inr n, tr3)"
      and tr3: "tr' = tr3"
      by (auto simp: plan_def Let_def split: sum.splits prod.splits)
    from pr have l: "last tr3 = Print (DebtToCoverSentToContract n)"
      by (auto simp: partial_repay_def node_call_def Let_def split: sum.splits prod.splits)
    from pr obtain dDecimals t oneDebtInUSD q tokens where
      t: "int_truediv (VariableRate.totalBorrowedAmount (variableRate b)) (10 ^ dDecimals) = Inr t"
      and one: "float_truediv ?fd t = Inr oneDebtInUSD"
      and q: "float_truediv ?fc oneDebtInUSD = Inr q"
      and tok: "float_truediv q sf = Inr tokens"
      and bu: "debtToCover_base_units tokens dDecimals = Inr n"
      by (auto simp: partial_repay_def node_call_def Let_def one_token_in_USD_def
            debtToCover_tokens_def split: sum.splits prod.splits)
    have "0 \<le> tk" if "tokens = Finite tk" for tk
      using tokens_not_negative [OF False assms(2) assms(3) t one q] tok that by simp
    from debtToCover_base_units_nonneg [OF bu this] have "0 \<le> n" .
    with l tr3 show ?thesis by simp
  qed
qed

text \<open>
  The theorem at the example of claim C3.
\<close>

theorem C5_witness:
  "(0::int) \<le> 96190476190476189696
   \<and> last (snd (plan (example_node 0 10500 18) (supplied ''0xC1'' (Finite 100) True (5 * 10 ^ 18))
                  (borrowed ''0xD1'' (Finite 200) (200 * 10 ^ 18)) []))
       = Print (DebtToCoverSentToContract 96190476190476189696)"
proof -
  let ?E = "example_node 0 10500 18"
  let ?c = "supplied ''0xC1'' (Finite 100) True (5 * 10 ^ 18)"
  let ?b = "borrowed ''0xD1'' (Finite 200) (200 * 10 ^ 18)"
  have "fst (plan ?E ?c ?b []) = Inr (''0xC1'', ''0xD1'', 96190476190476189696)"
    by code_simp
  then have h1: "plan ?E ?c ?b [] =
      (Inr (''0xC1'', ''0xD1'', 96190476190476189696), snd (plan ?E ?c ?b []))"
    by (metis prod.collapse)
  have h2: "\<not> float_lt (SuppliedAsset.fiatAmount ?c) (Finite 1)"
    by code_simp
  have h4: "0 \<le> VariableRate.totalBorrowedAmount (variableRate ?b)"
    by (simp add: borrowed_def)
  have h5: "last (snd (plan ?E ?c ?b [])) \<noteq> Print ScaledDebtLessThanCollateral"
    by code_simp
  from C5_amount_not_negative [OF h1 h2 h4] h5 show ?thesis
    by blast
qed


text \<open>
  Claim C5 as stated fails in both branches. A debt asset with no variable debt is planned
  in the full-repay branch with the amount zero, and the run submits that amount; a
  collateral of one USD against a debt token of no decimals worth 200 USD is planned in the
  partial-repay branch with the amount zero.
\<close>

theorem C5_counterexample:
  "fst (plan (example_node 1000 10500 18) (supplied ''0xC1'' (Finite 100) True (5 * 10 ^ 18))
          (borrowed ''0xD1'' (Finite 0) 0) []) = Inr (''0xC1'', ''0xD1'', 0)
   \<and> Call (BuildTransaction
             \<lparr>contract_call =
                \<lparr>debtAsset = ''0xD1'', debtToCover = 0, collateralAsset = ''0xC1'',
                 user = ''0xU'', assets = [''0xC1'', ''0xD1'']\<rparr>,
              chainId = 1, sender = ''0xB07'', nonce = 7\<rparr>)
       \<in> set (snd (trigger_logic (example_node 1000 10500 18)
                 (Status200 (Inr [position [supplied ''0xC1'' (Finite 100) True (5 * 10 ^ 18)]
                          [borrowed ''0xD1'' (Finite 0) 0]])) []))
   \<and> fst (plan (example_node 1000 10500 0) (supplied ''0xC1'' (Finite 1) True (10 ^ 18))
          (borrowed ''0xD1'' (Finite 200) 1) []) = Inr (''0xC1'', ''0xD1'', 0)"
  by code_simp

section \<open>The scale factor\<close>

text \<open>
  Claim C6. With \<open>liquidationProtocolFee\<close> the raw fee of the node divided by 100 and
  \<open>liquidationBonus\<close> the entry of index 3 of the reserve configuration divided by 100,
  minus 100, the scale factor of a pair is
  \<open>1 + liquidationBonus * (1 + liquidationProtocolFee / 100) / 100\<close> in float arithmetic,
  and this is the value the run prints and sizes the pair with.
\<close>

theorem C6_scale_factor:
  assumes "liquidationProtocolFeePercentage E tr = Inr raw_fee"
    and "int_truediv raw_fee 100 = Inr liquidationProtocolFee"
    and "getReserveConfigurationData E ca
           (tr @ [Call LiquidationProtocolFeePercentage,
                  Print (LiquidationProtocolFee liquidationProtocolFee)]) = Inr cfg"
    and "3 < length cfg"
    and "int_truediv (cfg ! 3) 100 = Inr x"
    and "liquidationBonus = float_sub x (Finite 100)"
  shows "\<exists>q r sf. float_truediv liquidationProtocolFee (Finite 100) = Inr q
           \<and> float_truediv (float_mul liquidationBonus (float_add (Finite 1) q)) (Finite 100) = Inr r
           \<and> sf = float_add (Finite 1) r
           \<and> fetch_scale_factor E ca tr =
               (Inr sf, tr @ [Call LiquidationProtocolFeePercentage,
                              Print (LiquidationProtocolFee liquidationProtocolFee),
                              Call (GetReserveConfigurationData ca),
                              Print (LiquidationBonus liquidationBonus),
                              Print (LiquidationScaleFactor sf)])"
proof -
  obtain q where q: "float_truediv liquidationProtocolFee (Finite 100) = Inr q"
    using float_truediv_100 [of liquidationProtocolFee]
    by (cases "float_truediv liquidationProtocolFee (Finite 100)") auto
  obtain r where
    r: "float_truediv (float_mul liquidationBonus (float_add (Finite 1) q)) (Finite 100) = Inr r"
    using float_truediv_100 [of "float_mul liquidationBonus (float_add (Finite 1) q)"]
    by (cases "float_truediv (float_mul liquidationBonus (float_add (Finite 1) q)) (Finite 100)") auto
  have "fetch_scale_factor E ca tr =
      (Inr (float_add (Finite 1) r),
       tr @ [Call LiquidationProtocolFeePercentage,
             Print (LiquidationProtocolFee liquidationProtocolFee),
             Call (GetReserveConfigurationData ca), Print (LiquidationBonus liquidationBonus),
             Print (LiquidationScaleFactor (float_add (Finite 1) r))])"
    using assms q r
    by (simp add: fetch_scale_factor_def node_call_def tuple_index_def liquidationScaleFactor_def)
  with q r show ?thesis by blast
qed

text \<open>
  The example of the specification: the raw values 1000 and 10500 give the fee 10, the
  bonus 5 and the scale factor 1.055.
\<close>

theorem C6_witness:
  "fetch_scale_factor (example_node 1000 10500 18) ''0xC1'' [] =
     (Inr (float_literal (1055 / 1000)),
      [Call LiquidationProtocolFeePercentage, Print (LiquidationProtocolFee (Finite 10)),
       Call (GetReserveConfigurationData ''0xC1''), Print (LiquidationBonus (Finite 5)),
       Print (LiquidationScaleFactor (float_literal (1055 / 1000)))])"
proof -
  let ?E = "example_node 1000 10500 18"
  have h1: "liquidationProtocolFeePercentage ?E [] = Inr 1000"
    by (simp add: example_node_def)
  have h2: "int_truediv 1000 100 = Inr (Finite 10)"
    by code_simp
  have h3: "getReserveConfigurationData ?E ''0xC1''
           ([] @ [Call LiquidationProtocolFeePercentage, Print (LiquidationProtocolFee (Finite 10))])
            = Inr [18, 8000, 8500, 10500, 1000]"
    by (simp add: example_node_def)
  have h4: "3 < length [18, 8000, 8500, 10500, 1000 :: int]"
    by simp
  have h5: "int_truediv ([18, 8000, 8500, 10500, 1000] ! 3) 100 = Inr (Finite 105)"
    by code_simp
  have h6: "Finite 5 = float_sub (Finite 105) (Finite 100)"
    by code_simp
  have q: "float_truediv (Finite 10) (Finite 100) = Inr (float_literal (1 / 10))"
    by code_simp
  have r: "float_truediv (float_mul (Finite 5) (float_add (Finite 1) (float_literal (1 / 10))))
             (Finite 100) = Inr (float_literal (55 / 1000))"
    by code_simp
  have s: "float_add (Finite 1) (float_literal (55 / 1000)) = float_literal (1055 / 1000)"
    by code_simp
  from C6_scale_factor [OF h1 h2 h3 h4 h5 h6] q r s show ?thesis
    by auto
qed

section \<open>The full-repay branch\<close>

text \<open>
  Claim C7. When the debt's fiat amount times the scale factor is below the collateral's
  fiat amount, the pair is sized to the variable \<open>totalBorrowedAmount\<close> itself, and
  sizing ends with the line of the full-repay branch: no decimals are requested from the
  node.
\<close>

theorem C7_full_repay:
  assumes "to_checksum_address E (SuppliedAsset.contract c) = Inr ca"
    and "to_checksum_address E (BorrowedAsset.contract b) = Inr da"
    and "fetch_scale_factor E ca
           (tr @ [Print (DebtIs b), Print (CollateralFiatAmount (SuppliedAsset.fiatAmount c)),
                  Print (DebtFiatAmount (VariableRate.fiatAmount (variableRate b)))]) = (Inr sf, tr2)"
    and "float_lt (float_mul (VariableRate.fiatAmount (variableRate b)) sf) (SuppliedAsset.fiatAmount c)"
  shows "plan E c b tr =
           (Inr (ca, da, VariableRate.totalBorrowedAmount (variableRate b)),
            tr2 @ [Print ScaledDebtLessThanCollateral])
       \<and> (\<forall>a. Call (Decimals a) \<notin> set (drop (length tr) (tr2 @ [Print ScaledDebtLessThanCollateral])))"
proof
  show "plan E c b tr =
           (Inr (ca, da, VariableRate.totalBorrowedAmount (variableRate b)),
            tr2 @ [Print ScaledDebtLessThanCollateral])"
    using assms by (simp add: plan_def Let_def)
next
  from fetch_scale_factor_Inr [OF assms(3)]
  show "\<forall>a. Call (Decimals a) \<notin> set (drop (length tr) (tr2 @ [Print ScaledDebtLessThanCollateral]))"
    by auto
qed

text \<open>
  The example of the specification: collateral 100 USD, debt 90 USD, scale factor 1.055.
\<close>

theorem C7_witness:
  "plan (example_node 1000 10500 18) (supplied ''0xC1'' (Finite 100) True (5 * 10 ^ 18))
        (borrowed ''0xD1'' (Finite 90) (90 * 10 ^ 18)) [] =
     (Inr (''0xC1'', ''0xD1'', 90 * 10 ^ 18),
      [Print (DebtIs (borrowed ''0xD1'' (Finite 90) (90 * 10 ^ 18))),
       Print (CollateralFiatAmount (Finite 100)), Print (DebtFiatAmount (Finite 90)),
       Call LiquidationProtocolFeePercentage, Print (LiquidationProtocolFee (Finite 10)),
       Call (GetReserveConfigurationData ''0xC1''), Print (LiquidationBonus (Finite 5)),
       Print (LiquidationScaleFactor (float_literal (1055 / 1000))),
       Print ScaledDebtLessThanCollateral])"
proof -
  let ?E = "example_node 1000 10500 18"
  let ?c = "supplied ''0xC1'' (Finite 100) True (5 * 10 ^ 18)"
  let ?b = "borrowed ''0xD1'' (Finite 90) (90 * 10 ^ 18)"
  let ?tr2 = "[Print (DebtIs ?b),
       Print (CollateralFiatAmount (Finite 100)), Print (DebtFiatAmount (Finite 90)),
       Call LiquidationProtocolFeePercentage, Print (LiquidationProtocolFee (Finite 10)),
       Call (GetReserveConfigurationData ''0xC1''), Print (LiquidationBonus (Finite 5)),
       Print (LiquidationScaleFactor (float_literal (1055 / 1000)))]"
  have h1: "to_checksum_address ?E (SuppliedAsset.contract ?c) = Inr ''0xC1''"
    by (simp add: example_node_def supplied_def)
  have h2: "to_checksum_address ?E (BorrowedAsset.contract ?b) = Inr ''0xD1''"
    by (simp add: example_node_def borrowed_def)
  have h3: "fetch_scale_factor ?E ''0xC1''
           ([] @ [Print (DebtIs ?b), Print (CollateralFiatAmount (SuppliedAsset.fiatAmount ?c)),
                  Print (DebtFiatAmount (VariableRate.fiatAmount (variableRate ?b)))])
            = (Inr (float_literal (1055 / 1000)), ?tr2)"
    by code_simp
  have h4: "float_lt (float_mul (VariableRate.fiatAmount (variableRate ?b)) (float_literal (1055 / 1000)))
               (SuppliedAsset.fiatAmount ?c)"
    by code_simp
  have h5: "VariableRate.totalBorrowedAmount (variableRate ?b) = 90 * 10 ^ 18"
    by (simp add: borrowed_def)
  from C7_full_repay [OF h1 h2 h3 h4] h5 show ?thesis by simp
qed

section \<open>Dust and non-collateral assets\<close>

text \<open>
  Claim C8. A collateral below one USD adds its three lines of the scan to the trace and
  nothing else, whatever the debts, the node and the value of \<open>done\<close> are: the loop goes
  on with the next collateral. And every supplied asset that a run iterates over (the
  line of line 254 names it) has \<open>isCollateral\<close> set and belongs to a position of the
  API's answer with status 200.
\<close>

theorem C8_dust_and_collateral_only:
  "(float_lt (SuppliedAsset.fiatAmount c) (Finite 1) \<longrightarrow>
      collateral_loop E p is_done (c # cs) tr =
      collateral_loop E p is_done cs
        (tr @ [Print NewLiquidationDetected, Print (CollateralIs c), Print CollateralLessThan1USD]))
   \<and> (\<exists>new. snd (trigger_logic E response tr0) = tr0 @ new
         \<and> (\<forall>a. Print (CollateralIs a) \<in> set new \<longrightarrow>
               isCollateral a
             \<and> (\<exists>ps p. response = Status200 (Inr ps) \<and> p \<in> set ps \<and> a \<in> set (supliedAssets p))))"
proof
  show "float_lt (SuppliedAsset.fiatAmount c) (Finite 1) \<longrightarrow>
      collateral_loop E p is_done (c # cs) tr =
      collateral_loop E p is_done cs
        (tr @ [Print NewLiquidationDetected, Print (CollateralIs c), Print CollateralLessThan1USD])"
    by (simp add: Let_def)
next
  show "\<exists>new. snd (trigger_logic E response tr0) = tr0 @ new
         \<and> (\<forall>a. Print (CollateralIs a) \<in> set new \<longrightarrow>
               isCollateral a
             \<and> (\<exists>ps p. response = Status200 (Inr ps) \<and> p \<in> set ps \<and> a \<in> set (supliedAssets p)))"
  proof (cases response)
    case (NoResponse e)
    then show ?thesis by (simp add: trigger_logic_def getLiquidatablePositions_def)
  next
    case (StatusOther body)
    then show ?thesis
      by (cases body) (simp_all add: trigger_logic_def getLiquidatablePositions_def)
  next
    case (Status200 answer)
    show ?thesis
    proof (cases answer)
      case (Inl e)
      with Status200 show ?thesis by (simp add: trigger_logic_def getLiquidatablePositions_def)
    next
      case (Inr ps)
      with Status200 have resp: "response = Status200 (Inr ps)" by simp
      show ?thesis
      proof (cases "ps = []")
        case True
        with resp show ?thesis by (simp add: trigger_logic_def getLiquidatablePositions_def)
      next
        case False
        let ?t = "tr0 @ [Print (PositionsOpenToLiquidation (length ps))]"
        obtain r tr' where pl: "position_loop E ps ?t = (r, tr')"
          by (cases "position_loop E ps ?t")
        from position_loop_CollateralIs [OF pl] obtain n where
          n: "tr' = ?t @ n"
             "\<forall>a. Print (CollateralIs a) \<in> set n \<longrightarrow>
                isCollateral a \<and> (\<exists>p \<in> set ps. a \<in> set (supliedAssets p))" by blast
        show ?thesis
        proof (cases r)
          case None
          with resp False pl n show ?thesis
            by (intro exI [of _ "Print (PositionsOpenToLiquidation (length ps)) # n
                                 @ [Print FinishedLiquidationProcess]"])
               (auto simp: trigger_logic_def getLiquidatablePositions_def)
        next
          case (Some e)
          with resp False pl n show ?thesis
            by (intro exI [of _ "Print (PositionsOpenToLiquidation (length ps)) # n"])
               (auto simp: trigger_logic_def getLiquidatablePositions_def)
        qed
      qed
    qed
  qed
qed

text \<open>
  A position with a supplied asset that is no collateral and a collateral of half a USD:
  the run sends nothing to the node.
\<close>

theorem C8_witness:
  "collateral_loop (example_node 1000 10500 18)
     (position [supplied ''0xC0'' (Finite 500) False (10 ^ 18),
                supplied ''0xC2'' (Finite (1 / 2)) True (10 ^ 18)] two_debts)
     False [supplied ''0xC2'' (Finite (1 / 2)) True (10 ^ 18)] [] =
   (None, [Print NewLiquidationDetected,
           Print (CollateralIs (supplied ''0xC2'' (Finite (1 / 2)) True (10 ^ 18))),
           Print CollateralLessThan1USD])
   \<and> snd (trigger_logic (example_node 1000 10500 18)
            (Status200 (Inr [position [supplied ''0xC0'' (Finite 500) False (10 ^ 18),
                             supplied ''0xC2'' (Finite (1 / 2)) True (10 ^ 18)] two_debts])) []) =
       [Print (PositionsOpenToLiquidation 1), Print NewLiquidationDetected,
        Print NewLiquidationDetected,
        Print (CollateralIs (supplied ''0xC2'' (Finite (1 / 2)) True (10 ^ 18))),
        Print CollateralLessThan1USD, Print FinishedLiquidationProcess]
   \<and> isCollateral (supplied ''0xC2'' (Finite (1 / 2)) True (10 ^ 18))"
proof -
  let ?E = "example_node 1000 10500 18"
  let ?dust = "supplied ''0xC2'' (Finite (1 / 2)) True (10 ^ 18)"
  let ?p = "position [supplied ''0xC0'' (Finite 500) False (10 ^ 18), ?dust] two_debts"
  have d: "float_lt (SuppliedAsset.fiatAmount ?dust) (Finite 1)"
    by code_simp
  have run: "snd (trigger_logic ?E (Status200 (Inr [?p])) []) =
       [Print (PositionsOpenToLiquidation 1), Print NewLiquidationDetected,
        Print NewLiquidationDetected, Print (CollateralIs ?dust),
        Print CollateralLessThan1USD, Print FinishedLiquidationProcess]"
    by code_simp
  note inst = C8_dust_and_collateral_only
    [where c = "?dust" and E = "?E" and p = "?p" and is_done = False and cs = "[]" and tr = "[]"
       and response = "Status200 (Inr [?p])" and ?tr0.0 = "[]"]
  from inst d have "collateral_loop ?E ?p False [?dust] [] =
      (None, [Print NewLiquidationDetected, Print (CollateralIs ?dust), Print CollateralLessThan1USD])"
    by simp
  moreover from inst obtain new where
    n: "snd (trigger_logic ?E (Status200 (Inr [?p])) []) = [] @ new"
       "\<forall>a. Print (CollateralIs a) \<in> set new \<longrightarrow> isCollateral a" by blast
  from n(1) run have "Print (CollateralIs ?dust) \<in> set new" by simp
  with n(2) have "isCollateral ?dust" by blast
  ultimately show ?thesis using run by simp
qed

section \<open>What \<open>liquidate\<close> returns\<close>

text \<open>
  Claim C9, as the code has it. When \<open>liquidate\<close> does not raise, it returns \<open>None\<close>;
  the hash of the receipt that the node delivered is printed as the last line and is not
  returned. Its caller learns of the success by the absence of an exception only.
\<close>

theorem C9_liquidate_returns_none:
  assumes "liquidate E collateralAddress debtAddress pk caller walletToLiquidateAddress amount tr
             = (Inr v, tr')"
  shows "v = PyNone
       \<and> (\<exists>h tr4 r. wait_for_transaction_receipt E h tr4 = Inr r
            \<and> tr' = tr4 @ [Call (WaitForTransactionReceipt h),
                           Print (TXHash (hexbytes_hex E (transactionHash r)))])"
  using assms
  by (auto simp: liquidate_def node_call_def Let_def split: sum.splits prod.splits option.splits)

text \<open>
  The theorem at a node that answers every request.
\<close>

theorem C9_witness:
  "\<exists>h tr4 r. wait_for_transaction_receipt (example_node 1000 10500 18) h tr4 = Inr r
      \<and> snd (liquidate (example_node 1000 10500 18) ''0xC1'' ''0xD1'' ''key'' ''0xB07'' ''0xU''
                (90 * 10 ^ 18) [])
          = tr4 @ [Call (WaitForTransactionReceipt h),
                   Print (TXHash (hexbytes_hex (example_node 1000 10500 18) (transactionHash r)))]"
proof -
  have "fst (liquidate (example_node 1000 10500 18) ''0xC1'' ''0xD1'' ''key'' ''0xB07'' ''0xU''
          (90 * 10 ^ 18) []) = Inr PyNone"
    by code_simp
  then have "liquidate (example_node 1000 10500 18) ''0xC1'' ''0xD1'' ''key'' ''0xB07'' ''0xU''
          (90 * 10 ^ 18) [] = (Inr PyNone,
      snd (liquidate (example_node 1000 10500 18) ''0xC1'' ''0xD1'' ''key'' ''0xB07'' ''0xU''
          (90 * 10 ^ 18) []))"
    by (metis prod.collapse)
  from C9_liquidate_returns_none [OF this] show ?thesis by blast
qed

text \<open>
  Claim C9 as stated fails: the same call returns \<open>None\<close>, not the hash it printed.
\<close>

theorem C9_counterexample:
  "fst (liquidate (example_node 1000 10500 18) ''0xC1'' ''0xD1'' ''key'' ''0xB07'' ''0xU''
          (90 * 10 ^ 18) []) = Inr PyNone
   \<and> fst (liquidate (example_node 1000 10500 18) ''0xC1'' ''0xD1'' ''key'' ''0xB07'' ''0xU''
          (90 * 10 ^ 18) []) \<noteq> Inr (PyStr ''0xkstx'')
   \<and> last (snd (liquidate (example_node 1000 10500 18) ''0xC1'' ''0xD1'' ''key'' ''0xB07'' ''0xU''
          (90 * 10 ^ 18) [])) = Print (TXHash ''0xkstx'')"
  by code_simp

section \<open>The awaited hash\<close>

text \<open>
  Claim C10. Whenever \<open>liquidate\<close> waits for a receipt, it waits under the hex form of
  the keccak hash of the raw bytes of the transaction it signed, and the request before
  the wait is the submission of these bytes: the hash is fixed by the signed transaction
  before the node is asked to take it. The value that \<open>send_raw_transaction\<close> returns
  plays no part: replacing every returned value by any other changes neither the result
  nor the trace.
\<close>

theorem C10_awaited_hash:
  "(\<exists>new. snd (liquidate E collateralAddress debtAddress pk caller walletToLiquidateAddress amount tr)
             = tr @ new
       \<and> (\<forall>h. Call (WaitForTransactionReceipt h) \<in> set new \<longrightarrow>
             (\<exists>t s pre post. sign_transaction E t pk = Inr s
                \<and> h = to_hex E (keccak E (rawTransaction s))
                \<and> new = pre @ [Call (SendRawTransaction (rawTransaction s)),
                                Call (WaitForTransactionReceipt h)] @ post)))
   \<and> liquidate (E\<lparr>send_raw_transaction :=
                     \<lambda>raw t. map_sum id f (send_raw_transaction E raw t)\<rparr>)
        collateralAddress debtAddress pk caller walletToLiquidateAddress amount tr
      = liquidate E collateralAddress debtAddress pk caller walletToLiquidateAddress amount tr"
proof
  let ?prints = "[Print (LiquidatingUser walletToLiquidateAddress),
                  Print (CollateralAddress collateralAddress),
                  Print (DebtAddress debtAddress), Print (DebtToCover amount)]"
  have shape: "\<exists>new. snd (liquidate E collateralAddress debtAddress pk caller
                             walletToLiquidateAddress amount tr) = tr @ new
       \<and> ((\<forall>h. Call (WaitForTransactionReceipt h) \<notin> set new)
          \<or> (\<exists>t s req post. sign_transaction E t pk = Inr s
               \<and> new = (?prints @ [Call (GetTransactionCount caller), Call (BuildTransaction req)])
                     @ [Call (SendRawTransaction (rawTransaction s)),
                        Call (WaitForTransactionReceipt (to_hex E (keccak E (rawTransaction s))))]
                     @ post))"
    by (auto simp: liquidate_def node_call_def Let_def split: sum.splits prod.splits option.splits)
  then obtain new where n: "snd (liquidate E collateralAddress debtAddress pk caller
                             walletToLiquidateAddress amount tr) = tr @ new"
    and d: "(\<forall>h. Call (WaitForTransactionReceipt h) \<notin> set new)
          \<or> (\<exists>t s req post. sign_transaction E t pk = Inr s
               \<and> new = (?prints @ [Call (GetTransactionCount caller), Call (BuildTransaction req)])
                     @ [Call (SendRawTransaction (rawTransaction s)),
                        Call (WaitForTransactionReceipt (to_hex E (keccak E (rawTransaction s))))]
                     @ post)"
    by blast
  have "\<forall>h. Call (WaitForTransactionReceipt h) \<in> set new \<longrightarrow>
             (\<exists>t s pre post. sign_transaction E t pk = Inr s
                \<and> h = to_hex E (keccak E (rawTransaction s))
                \<and> new = pre @ [Call (SendRawTransaction (rawTransaction s)),
                                Call (WaitForTransactionReceipt h)] @ post)"
  proof (intro allI impI)
    fix h
    assume h: "Call (WaitForTransactionReceipt h) \<in> set new"
    with d obtain t s req post where s: "sign_transaction E t pk = Inr s"
      and new: "new = (?prints @ [Call (GetTransactionCount caller), Call (BuildTransaction req)])
                     @ [Call (SendRawTransaction (rawTransaction s)),
                        Call (WaitForTransactionReceipt (to_hex E (keccak E (rawTransaction s))))]
                     @ post"
      by blast
    have "post = [] \<or> (\<exists>x. post = [Print (TXHash x)])"
      using n new
      by (auto simp: liquidate_def node_call_def Let_def split: sum.splits prod.splits option.splits)
    with h new have "h = to_hex E (keccak E (rawTransaction s))"
      by auto
    with s new show "\<exists>t s pre post. sign_transaction E t pk = Inr s
                \<and> h = to_hex E (keccak E (rawTransaction s))
                \<and> new = pre @ [Call (SendRawTransaction (rawTransaction s)),
                                Call (WaitForTransactionReceipt h)] @ post"
      by blast
  qed
  with n show "\<exists>new. snd (liquidate E collateralAddress debtAddress pk caller walletToLiquidateAddress amount tr)
             = tr @ new
       \<and> (\<forall>h. Call (WaitForTransactionReceipt h) \<in> set new \<longrightarrow>
             (\<exists>t s pre post. sign_transaction E t pk = Inr s
                \<and> h = to_hex E (keccak E (rawTransaction s))
                \<and> new = pre @ [Call (SendRawTransaction (rawTransaction s)),
                                Call (WaitForTransactionReceipt h)] @ post))"
    by blast
next
  show "liquidate (E\<lparr>send_raw_transaction :=
                     \<lambda>raw t. map_sum id f (send_raw_transaction E raw t)\<rparr>)
        collateralAddress debtAddress pk caller walletToLiquidateAddress amount tr
      = liquidate E collateralAddress debtAddress pk caller walletToLiquidateAddress amount tr"
    by (auto simp: liquidate_def node_call_def Let_def split: sum.splits prod.splits option.splits)
qed

text \<open>
  The theorem at a node that answers every request.
\<close>

theorem C10_witness:
  "Call (WaitForTransactionReceipt ''0xkstx'')
     \<in> set (snd (liquidate (example_node 1000 10500 18) ''0xC1'' ''0xD1'' ''key'' ''0xB07'' ''0xU''
                   (90 * 10 ^ 18) []))
   \<and> (\<exists>t s. sign_transaction (example_node 1000 10500 18) t ''key'' = Inr s
         \<and> ''0xkstx'' = to_hex (example_node 1000 10500 18)
                           (keccak (example_node 1000 10500 18) (rawTransaction s)))"
proof -
  let ?E = "example_node 1000 10500 18"
  let ?tr = "snd (liquidate ?E ''0xC1'' ''0xD1'' ''key'' ''0xB07'' ''0xU'' (90 * 10 ^ 18) [])"
  have m: "Call (WaitForTransactionReceipt ''0xkstx'') \<in> set ?tr"
    by code_simp
  from C10_awaited_hash [of ?E "''0xC1''" "''0xD1''" "''key''" "''0xB07''" "''0xU''" "90 * 10 ^ 18" "[]"]
  obtain new where n: "?tr = [] @ new"
    and a: "\<forall>h. Call (WaitForTransactionReceipt h) \<in> set new \<longrightarrow>
             (\<exists>t s pre post. sign_transaction ?E t ''key'' = Inr s
                \<and> h = to_hex ?E (keccak ?E (rawTransaction s))
                \<and> new = pre @ [Call (SendRawTransaction (rawTransaction s)),
                                Call (WaitForTransactionReceipt h)] @ post)"
    by blast
  from n m have "Call (WaitForTransactionReceipt ''0xkstx'') \<in> set new"
    by simp
  with a obtain t s where "sign_transaction ?E t ''key'' = Inr s"
    and "''0xkstx'' = to_hex ?E (keccak ?E (rawTransaction s))"
    by blast
  with m show ?thesis by blast
qed

end
